theory Spec2Isabelle
  imports Main
begin

section \<open>A WebRTC signaling server: sessions, relay and reconnection\<close>

text \<open>
  The repository holds four listings of one signaling server. They share the data model
  and differ in what happens when a connection closes:
  \<^item> \<open>grace\<close>: the first listing of \<^verbatim>\<open>server.js\<close> (lines 1-143), where a close arms a
    two-minute timer;
  \<^item> \<open>hb\<close>: the second listing of \<^verbatim>\<open>server.js\<close> (lines 144-372), with a heartbeat, the
    \<^verbatim>\<open>hostOffline\<close>/\<^verbatim>\<open>clientOffline\<close> flags and \<^verbatim>\<open>reconnect-session\<close>;
  \<^item> \<open>restore\<close>: \<^verbatim>\<open>part_000\<close>, the grace listing with a \<^verbatim>\<open>restore-session\<close> handler in front;
  \<^item> \<open>mvp\<close>: \<^verbatim>\<open>part_001\<close>, where a close takes effect at once.

  Every handler of the source is a function from the server state (and the identifier of
  the connection whose closure runs) to the new state and the list of messages sent, in
  the order of the \<^verbatim>\<open>send\<close> calls. The model starts after \<^verbatim>\<open>JSON.parse\<close> has succeeded, on
  envelopes whose fields are strings (\<^verbatim>\<open>enabled\<close> already coerced by \<^verbatim>\<open>!!\<close>). What the source
  draws from its environment (\<^verbatim>\<open>Math.random\<close>, \<^verbatim>\<open>new Date\<close>, the identifier that \<^verbatim>\<open>uuidv4\<close>
  proposes) is an argument.

  \<^verbatim>\<open>sessions\<close> is a plain object, so a key that names a property of \<^verbatim>\<open>Object.prototype\<close>
  (\<^verbatim>\<open>constructor\<close>, \<^verbatim>\<open>__proto__\<close>, \<^verbatim>\<open>toString\<close>, ...) reads as a truthy value that is not
  a session, and the handlers that take such a key from a message go on to read and
  write fields of that value, up to the prototype of every object of the process. These
  keys are outside the model. The keys the server itself makes are decimal numerals
  (\<open>decimal_code\<close>), which name no inherited property: for them \<^verbatim>\<open>sessions[code]\<close> is the
  own property or \<^verbatim>\<open>undefined\<close>, and the properties about a session code taken from a
  message are stated for decimal numerals.
\<close>

subsection \<open>Data model\<close>

text \<open>
  A session object. \<^verbatim>\<open>id\<close> is written \<open>id_s\<close>. \<^verbatim>\<open>clientId\<close> is \<^verbatim>\<open>null\<close> or a string.
  The two offline flags exist in the \<open>hb\<close> listing only; the other listings never read
  or write them.
\<close>

record session =
  id_s :: string
  hostId :: string
  clientId :: "string option"
  createdAt :: nat
  controlEnabled :: bool
  hostOffline :: bool
  clientOffline :: bool

text \<open>The fields the server keeps on a socket object \<^verbatim>\<open>ws\<close>.\<close>

record socket =
  ws_sessionId :: "string option"
  ws_role :: "string option"
  isAlive :: bool

text \<open>A parsed inbound envelope.\<close>

record message =
  mtype :: string
  sessionCode :: string
  sessionId :: string
  role :: string
  enabled :: bool
  payload :: string
  event :: string

text \<open>The objects handed to \<^verbatim>\<open>send\<close>.\<close>

datatype outmsg =
    Connected string
  | Error string
  | SessionCreated string string
  | SessionJoined string string
  | ClientJoined string
  | Signal string string string
  | ControlStatus bool
  | ControlEventOut string string
  | HostDisconnected
  | ClientDisconnected
  | HostOffline
  | ClientOffline
  | HostReconnected
  | ClientReconnected
  | SessionRejoined string
  | SessionRestored string string
  | ReconnectFailed string
  | ReconnectSuccess string string

text \<open>
  A pending \<^verbatim>\<open>setTimeout\<close> callback of the close handler: the session code, the role
  branch that armed it and the connection identifier its closure captured.
\<close>

datatype slot = HostSlot | ClientSlot

record timer =
  t_code :: string
  t_slot :: slot
  t_cid :: string

text \<open>
  The server state. \<open>sessions\<close> is the object \<^verbatim>\<open>sessions\<close> as the list of its entries in
  enumeration order. \<^verbatim>\<open>clients\<close> is split in two: \<open>clients\<close> lists the keys of the registry
  in insertion order, and \<open>sockets\<close> gives the socket object created for an identifier,
  which outlives its registry entry (the close handler still reads it). Identifiers of
  connections are taken distinct per connection, as \<^verbatim>\<open>uuidv4\<close> provides them.
  \<open>timers\<close> holds the pending timeouts by handle, \<open>disconnectTimers\<close> is the object of
  that name. \<open>issued\<close> lists every identifier \<^verbatim>\<open>uuidv4\<close> has returned since the process
  started, the latest first.
\<close>

record server =
  sessions :: "(string \<times> session) list"
  clients :: "string list"
  sockets :: "string \<Rightarrow> socket"
  timers :: "nat \<rightharpoonup> timer"
  disconnectTimers :: "string \<rightharpoonup> nat"
  nextTimer :: nat
  issued :: "string list"

text \<open>
  What one handler run draws from the environment: \<open>rnd\<close> stands for
  \<^verbatim>\<open>Math.floor(Math.random() * 900000)\<close>, \<open>uuid\<close> is the identifier the generator proposes,
  \<open>now\<close> is the clock.
\<close>

record env =
  rnd :: nat
  uuid :: string
  now :: nat

type_synonym sent = "(string \<times> outmsg) list"

subsection \<open>JavaScript objects and values\<close>

text \<open>\<^verbatim>\<open>!!v\<close> for a value that is \<^verbatim>\<open>null\<close> or a string: the empty string is falsy.\<close>

fun truthy :: "string option \<Rightarrow> bool" where
  "truthy None = False"
| "truthy (Some v) = (v \<noteq> [])"

text \<open>A property key made from a value that is \<^verbatim>\<open>null\<close> or a string.\<close>

fun key_of :: "string option \<Rightarrow> string" where
  "key_of None = ''null''"
| "key_of (Some v) = v"

text \<open>\<^verbatim>\<open>clients[k]\<close> is truthy.\<close>

definition live :: "server \<Rightarrow> string \<Rightarrow> bool" where
  "live st k = (k \<in> set (clients st))"

text \<open>
  \<^verbatim>\<open>sessions[code]\<close> for a code that names no inherited property, as every decimal
  numeral and the empty string: the own property under the code, or \<^verbatim>\<open>undefined\<close>.
\<close>

definition sessions_get :: "server \<Rightarrow> string \<Rightarrow> session option" where
  "sessions_get st code = map_of (sessions st) code"

text \<open>
  The number a session code denotes. Session codes are the keys of \<^verbatim>\<open>sessions\<close>; they
  are decimal numerals, which a JavaScript object enumerates in ascending numeric order.
\<close>

definition digit_of :: "char \<Rightarrow> nat" where
  "digit_of c = of_char c - 48"

definition code_val :: "string \<Rightarrow> nat" where
  "code_val k = foldl (\<lambda>a c. 10 * a + digit_of c) 0 k"

text \<open>A decimal numeral: a non-empty string of the characters 0 to 9.\<close>

definition is_digit :: "char \<Rightarrow> bool" where
  "is_digit c = (c \<in> set ''0123456789'')"

definition decimal_code :: "string \<Rightarrow> bool" where
  "decimal_code k = (k \<noteq> [] \<and> list_all is_digit k)"

text \<open>\<^verbatim>\<open>'' + n\<close> for a number that is a natural number: its decimal numeral.\<close>

definition digit_char :: "nat \<Rightarrow> char" where
  "digit_char d = ''0123456789'' ! d"

function string_of_nat :: "nat \<Rightarrow> string" where
  "string_of_nat n =
     (if n < 10 then [digit_char n] else string_of_nat (n div 10) @ [digit_char (n mod 10)])"
  by pat_completeness auto
termination
  by (relation "measure (\<lambda>n. n)") auto

declare string_of_nat.simps [simp del]

text \<open>
  \<^verbatim>\<open>'' + Math.floor(100000 + Math.random() * 900000)\<close>. \<^verbatim>\<open>Math.random()\<close> is at least 0 and
  less than 1, so the number added to 100000 is a natural number below 900000.
\<close>

definition new_code :: "env \<Rightarrow> string" where
  "new_code e = string_of_nat (100000 + rnd e mod 900000)"

text \<open>A new key takes its place by value: before the first key that denotes a greater number.\<close>

fun place :: "string \<Rightarrow> session \<Rightarrow> (string \<times> session) list \<Rightarrow> (string \<times> session) list" where
  "place k v [] = [(k, v)]"
| "place k v (p # ps) =
     (if code_val k < code_val (fst p) then (k, v) # p # ps else p # place k v ps)"

text \<open>The entry of an existing key is replaced where it stands.\<close>

fun replace :: "string \<Rightarrow> session \<Rightarrow> (string \<times> session) list \<Rightarrow> (string \<times> session) list" where
  "replace k v [] = []"
| "replace k v (p # ps) = (if fst p = k then (k, v) # ps else p # replace k v ps)"

text \<open>\<^verbatim>\<open>sessions[code] = s\<close>.\<close>

definition sessions_set :: "string \<Rightarrow> session \<Rightarrow> (string \<times> session) list \<Rightarrow> (string \<times> session) list" where
  "sessions_set k v al = (if map_of al k = None then place k v al else replace k v al)"

text \<open>\<^verbatim>\<open>delete sessions[code]\<close>.\<close>

definition sessions_delete :: "string \<Rightarrow> (string \<times> session) list \<Rightarrow> (string \<times> session) list" where
  "sessions_delete k al = filter (\<lambda>p. fst p \<noteq> k) al"

text \<open>
  An assignment to fields of the session object that \<open>P\<close> selects: the first entry in
  enumeration order.
\<close>

fun session_assign ::
  "(string \<times> session \<Rightarrow> bool) \<Rightarrow> (session \<Rightarrow> session) \<Rightarrow> (string \<times> session) list \<Rightarrow> (string \<times> session) list" where
  "session_assign P f [] = []"
| "session_assign P f (p # ps) =
     (if P p then (fst p, f (snd p)) # ps else p # session_assign P f ps)"

definition at_code :: "string \<Rightarrow> string \<times> session \<Rightarrow> bool" where
  "at_code code p = (fst p = code)"

definition has_id :: "string \<Rightarrow> string \<times> session \<Rightarrow> bool" where
  "has_id sid p = (id_s (snd p) = sid)"

text \<open>
  \<^verbatim>\<open>Object.values(sessions).find(s => s.id === sessionId)\<close>, and the loop
  \<^verbatim>\<open>for (const code in sessions)\<close> of the close handlers that stops at the first session
  with the identifier: the entry found, with its code.
\<close>

definition find_session :: "server \<Rightarrow> string \<Rightarrow> (string \<times> session) option" where
  "find_session st sid = find (has_id sid) (sessions st)"

text \<open>\<^verbatim>\<open>ws._sessionId = v\<close> and \<^verbatim>\<open>ws._role = v\<close> on the socket of connection \<open>cid\<close>.\<close>

definition set_ws_sessionId :: "string \<Rightarrow> string \<Rightarrow> server \<Rightarrow> server" where
  "set_ws_sessionId cid v st =
     st\<lparr>sockets := (sockets st)(cid := (sockets st cid)\<lparr>ws_sessionId := Some v\<rparr>)\<rparr>"

definition set_ws_role :: "string \<Rightarrow> string \<Rightarrow> server \<Rightarrow> server" where
  "set_ws_role cid v st =
     st\<lparr>sockets := (sockets st)(cid := (sockets st cid)\<lparr>ws_role := Some v\<rparr>)\<rparr>"

text \<open>\<^verbatim>\<open>send(ws, obj)\<close>, the socket named by its connection identifier.\<close>

definition send :: "string \<Rightarrow> outmsg \<Rightarrow> sent" where
  "send k obj = [(k, obj)]"

text \<open>\<^verbatim>\<open>broadcastToSession(sessionId, obj)\<close>.\<close>

definition broadcastToSession :: "server \<Rightarrow> string \<Rightarrow> outmsg \<Rightarrow> sent" where
  "broadcastToSession st sid obj =
     concat (map (\<lambda>k. if ws_sessionId (sockets st k) = Some sid then send k obj else [])
       (clients st))"

text \<open>
  Modelled from the spec: \<^verbatim>\<open>uuidv4\<close> comes from the package \<^verbatim>\<open>uuid\<close>, which is not among
  the source files. The spec takes what it returns to be unique for the lifetime of the
  process. The model returns an identifier that it has not returned before and records
  it: the identifier the environment proposes when that is non-empty and new, and
  otherwise a string longer than every identifier returned so far.
\<close>

definition longer_than_all :: "string list \<Rightarrow> string" where
  "longer_than_all ids = replicate (Suc (foldr (\<lambda>i n. max (length i) n) ids 0)) (CHR ''0'')"

definition uuidv4 :: "server \<Rightarrow> env \<Rightarrow> string \<times> server" where
  "uuidv4 st e =
     (let i = (if uuid e \<noteq> [] \<and> uuid e \<notin> set (issued st) then uuid e
               else longer_than_all (issued st))
      in (i, st\<lparr>issued := i # issued st\<rparr>))"

text \<open>The \<^verbatim>\<open>connection\<close> event.\<close>

definition on_connection :: "server \<Rightarrow> env \<Rightarrow> server \<times> sent" where
  "on_connection st e =
     (let clientId = fst (uuidv4 st e); st1 = snd (uuidv4 st e) in
      (st1\<lparr>clients := (if clientId \<in> set (clients st1) then clients st1
                        else clients st1 @ [clientId]),
           sockets := (sockets st1)
             (clientId := \<lparr>ws_sessionId = None, ws_role = None, isAlive = True\<rparr>)\<rparr>,
       send clientId (Connected clientId)))"

subsection \<open>Handlers shared by the grace, restore and mvp listings\<close>

text \<open>\<^verbatim>\<open>create-session\<close> (server.js 37-45, part_000 69-77, part_001 62-76).\<close>

definition create_session :: "server \<Rightarrow> string \<Rightarrow> env \<Rightarrow> server \<times> sent" where
  "create_session st cid e =
     (let sessionCode = new_code e; sessionId = fst (uuidv4 st e); st1 = snd (uuidv4 st e) in
      (set_ws_sessionId cid sessionId
         (st1\<lparr>sessions := sessions_set sessionCode
               \<lparr>id_s = sessionId, hostId = cid, clientId = None, createdAt = now e,
                controlEnabled = False, hostOffline = False, clientOffline = False\<rparr>
               (sessions st1)\<rparr>),
       send cid (SessionCreated sessionCode sessionId)))"

text \<open>\<^verbatim>\<open>join-session\<close> (server.js 47-65, part_000 80-98).\<close>

definition join_session :: "server \<Rightarrow> string \<Rightarrow> message \<Rightarrow> server \<times> sent" where
  "join_session st cid data =
     (case sessions_get st (sessionCode data) of
        None \<Rightarrow> (st, send cid (Error ''invalid-session-code''))
      | Some session \<Rightarrow>
          if \<not> live st (hostId session) then
            (st\<lparr>sessions := sessions_delete (sessionCode data) (sessions st)\<rparr>,
             send cid (Error ''host-not-available''))
          else if truthy (clientId session) \<and> live st (key_of (clientId session)) then
            (st, send cid (Error ''session-already-has-client''))
          else
            (set_ws_sessionId cid (id_s session)
               (st\<lparr>sessions := session_assign (at_code (sessionCode data))
                     (\<lambda>s. s\<lparr>clientId := Some cid\<rparr>) (sessions st)\<rparr>),
             send cid (SessionJoined (id_s session) (sessionCode data))
               @ send (hostId session) (ClientJoined cid)))"

text \<open>
  The recipient of a relayed message, \<^verbatim>\<open>targetId\<close>:
  \<^verbatim>\<open>(sessionEntry.hostId === clientId) ? sessionEntry.clientId : sessionEntry.hostId\<close>.
\<close>

definition targetId :: "session \<Rightarrow> string \<Rightarrow> string option" where
  "targetId sessionEntry cid =
     (if hostId sessionEntry = cid then clientId sessionEntry else Some (hostId sessionEntry))"

text \<open>The relay of \<^verbatim>\<open>offer\<close>, \<^verbatim>\<open>answer\<close> and \<^verbatim>\<open>ice-candidate\<close> (server.js 67-77, part_000 101-111).\<close>

definition relay :: "server \<Rightarrow> string \<Rightarrow> message \<Rightarrow> server \<times> sent" where
  "relay st cid data =
     (case find_session st (sessionId data) of
        None \<Rightarrow> (st, send cid (Error ''unknown-session''))
      | Some (code, sessionEntry) \<Rightarrow>
          if live st (key_of (targetId sessionEntry cid))
          then (st, send (key_of (targetId sessionEntry cid))
                      (Signal (mtype data) cid (payload data)))
          else (st, send cid (Error ''peer-not-connected'')))"

text \<open>\<^verbatim>\<open>toggle-control\<close> (server.js 79-87, part_000 114-122, part_001 136-146).\<close>

definition toggle_control :: "server \<Rightarrow> string \<Rightarrow> message \<Rightarrow> server \<times> sent" where
  "toggle_control st cid data =
     (case find_session st (sessionId data) of
        None \<Rightarrow> (st, send cid (Error ''unknown-session''))
      | Some (code, sessionEntry) \<Rightarrow>
          if hostId sessionEntry \<noteq> cid then (st, send cid (Error ''not-host''))
          else
            (st\<lparr>sessions := session_assign (has_id (sessionId data))
                  (\<lambda>s. s\<lparr>controlEnabled := enabled data\<rparr>) (sessions st)\<rparr>,
             broadcastToSession st (id_s sessionEntry) (ControlStatus (enabled data))))"

text \<open>\<^verbatim>\<open>control-event\<close> (server.js 89-98, part_000 125-134).\<close>

definition control_event :: "server \<Rightarrow> string \<Rightarrow> message \<Rightarrow> server \<times> sent" where
  "control_event st cid data =
     (case find_session st (sessionId data) of
        None \<Rightarrow> (st, send cid (Error ''control-not-enabled''))
      | Some (code, sessionEntry) \<Rightarrow>
          if \<not> controlEnabled sessionEntry then (st, send cid (Error ''control-not-enabled''))
          else if \<not> truthy (targetId sessionEntry cid) then (st, [])
          else if live st (key_of (targetId sessionEntry cid))
          then (st, send (key_of (targetId sessionEntry cid)) (ControlEventOut cid (event data)))
          else (st, []))"

definition is_signal :: "string \<Rightarrow> bool" where
  "is_signal t = (t \<in> set [''offer'', ''answer'', ''ice-candidate''])"

subsection \<open>The grace listing (server.js 1-143)\<close>

definition on_message_grace :: "server \<Rightarrow> string \<Rightarrow> env \<Rightarrow> message \<Rightarrow> server \<times> sent" where
  "on_message_grace st cid e data =
     (if mtype data = ''create-session'' then create_session st cid e
      else if mtype data = ''join-session'' then join_session st cid data
      else if is_signal (mtype data) then relay st cid data
      else if mtype data = ''toggle-control'' then toggle_control st cid data
      else if mtype data = ''control-event'' then control_event st cid data
      else (st, send cid (Error ''unknown-type'')))"

text \<open>\<^verbatim>\<open>disconnectTimers[code] = setTimeout(callback, 120000)\<close>.\<close>

definition arm :: "timer \<Rightarrow> server \<Rightarrow> server" where
  "arm t st =
     st\<lparr>timers := (timers st)(nextTimer st \<mapsto> t),
        disconnectTimers := (disconnectTimers st)(t_code t \<mapsto> nextTimer st),
        nextTimer := Suc (nextTimer st)\<rparr>"

text \<open>The \<^verbatim>\<open>close\<close> event (server.js 103-138, part_000 139-172).\<close>

definition on_close_grace :: "server \<Rightarrow> string \<Rightarrow> server \<times> sent" where
  "on_close_grace st cid =
     (let sessionId = ws_sessionId (sockets st cid);
          st1 = st\<lparr>clients := removeAll cid (clients st)\<rparr> in
      if \<not> truthy sessionId then (st1, [])
      else
        (case find_session st1 (key_of sessionId) of
           None \<Rightarrow> (st1, [])
         | Some (code, s) \<Rightarrow>
             if hostId s = cid then
               (arm \<lparr>t_code = code, t_slot = HostSlot, t_cid = cid\<rparr> st1, [])
             else if clientId s = Some cid then
               (arm \<lparr>t_code = code, t_slot = ClientSlot, t_cid = cid\<rparr> st1, [])
             else (st1, [])))"

text \<open>
  The two timer callbacks (server.js 115-121 and 125-132). The variable \<^verbatim>\<open>s\<close> of the
  closure is the object the close handler found under \<^verbatim>\<open>code\<close>; inside the guard it is
  read as the entry \<^verbatim>\<open>sessions[code]\<close>, the only object the guard lets through when
  identifiers are not reused.
\<close>

definition callback :: "timer \<Rightarrow> server \<Rightarrow> server \<times> sent" where
  "callback t st =
     (case sessions_get st (t_code t) of
        None \<Rightarrow> (st, [])
      | Some s \<Rightarrow>
          (case t_slot t of
             HostSlot \<Rightarrow>
               if hostId s = t_cid t then
                 (st\<lparr>sessions := sessions_delete (t_code t) (sessions st)\<rparr>,
                  if truthy (clientId s) \<and> live st (key_of (clientId s))
                  then send (key_of (clientId s)) HostDisconnected else [])
               else (st, [])
           | ClientSlot \<Rightarrow>
               if clientId s = Some (t_cid t) then
                 (st\<lparr>sessions := session_assign (at_code (t_code t))
                       (\<lambda>s. s\<lparr>clientId := None, controlEnabled := False\<rparr>) (sessions st)\<rparr>,
                  if live st (hostId s) then send (hostId s) ClientDisconnected else [])
               else (st, [])))"

text \<open>A pending timeout fires: it leaves the pending set and its callback runs.\<close>

definition on_timeout :: "server \<Rightarrow> nat \<Rightarrow> server \<times> sent" where
  "on_timeout st h =
     (case timers st h of
        None \<Rightarrow> (st, [])
      | Some t \<Rightarrow> callback t (st\<lparr>timers := (timers st)(h := None)\<rparr>))"

subsection \<open>The restore listing (part_000)\<close>

text \<open>\<^verbatim>\<open>clearTimeout(disconnectTimers[sessionCode])\<close>: an undefined handle clears nothing.\<close>

definition clearTimeout :: "nat option \<Rightarrow> server \<Rightarrow> server" where
  "clearTimeout h st =
     (case h of None \<Rightarrow> st | Some n \<Rightarrow> st\<lparr>timers := (timers st)(n := None)\<rparr>)"

text \<open>\<^verbatim>\<open>restore-session\<close> (part_000 38-66).\<close>

definition restore_session :: "server \<Rightarrow> string \<Rightarrow> message \<Rightarrow> server \<times> sent" where
  "restore_session st cid data =
     (case sessions_get st (sessionCode data) of
        None \<Rightarrow> (st, send cid (Error ''no-session-to-restore''))
      | Some session \<Rightarrow>
          (let st1 = clearTimeout (disconnectTimers st (sessionCode data)) st in
           if role data = ''host'' \<and> \<not> live st (hostId session) then
             (set_ws_sessionId cid (id_s session)
                (st1\<lparr>sessions := session_assign (at_code (sessionCode data))
                      (\<lambda>s. s\<lparr>hostId := cid\<rparr>) (sessions st)\<rparr>),
              send cid (SessionRestored (id_s session) (sessionCode data))
                @ (if truthy (clientId session) \<and> live st (key_of (clientId session))
                   then send (key_of (clientId session)) HostReconnected else []))
           else if role data = ''client'' \<and> \<not> live st (key_of (clientId session)) then
             (set_ws_sessionId cid (id_s session)
                (st1\<lparr>sessions := session_assign (at_code (sessionCode data))
                      (\<lambda>s. s\<lparr>clientId := Some cid\<rparr>) (sessions st)\<rparr>),
              send cid (SessionRestored (id_s session) (sessionCode data))
                @ (if live st (hostId session)
                   then send (hostId session) ClientReconnected else []))
           else (st1, send cid (Error ''no-session-to-restore''))))"

definition on_message_restore :: "server \<Rightarrow> string \<Rightarrow> env \<Rightarrow> message \<Rightarrow> server \<times> sent" where
  "on_message_restore st cid e data =
     (if mtype data = ''restore-session'' then restore_session st cid data
      else if mtype data = ''create-session'' then create_session st cid e
      else if mtype data = ''join-session'' then join_session st cid data
      else if is_signal (mtype data) then relay st cid data
      else if mtype data = ''toggle-control'' then toggle_control st cid data
      else if mtype data = ''control-event'' then control_event st cid data
      else (st, send cid (Error ''unknown-type'')))"

subsection \<open>The mvp listing (part_001)\<close>

text \<open>\<^verbatim>\<open>join-session\<close> (part_001 79-108): as above, after a test that the code is truthy.\<close>

definition join_session_mvp :: "server \<Rightarrow> string \<Rightarrow> message \<Rightarrow> server \<times> sent" where
  "join_session_mvp st cid data =
     (if sessionCode data = [] \<or> sessions_get st (sessionCode data) = None
      then (st, send cid (Error ''invalid-session-code''))
      else join_session st cid data)"

text \<open>The relay (part_001 111-133), which first asks for a session identifier.\<close>

definition relay_mvp :: "server \<Rightarrow> string \<Rightarrow> message \<Rightarrow> server \<times> sent" where
  "relay_mvp st cid data =
     (if sessionId data = [] then (st, send cid (Error ''missing-sessionId''))
      else relay st cid data)"

text \<open>\<^verbatim>\<open>control-event\<close> (part_001 149-163).\<close>

definition control_event_mvp :: "server \<Rightarrow> string \<Rightarrow> message \<Rightarrow> server \<times> sent" where
  "control_event_mvp st cid data =
     (case find_session st (sessionId data) of
        None \<Rightarrow> (st, send cid (Error ''unknown-session''))
      | Some (code, sessionEntry) \<Rightarrow>
          if \<not> controlEnabled sessionEntry then (st, send cid (Error ''control-not-enabled''))
          else if \<not> truthy (targetId sessionEntry cid)
          then (st, send cid (Error ''peer-not-connected''))
          else if live st (key_of (targetId sessionEntry cid))
          then (st, send (key_of (targetId sessionEntry cid)) (ControlEventOut cid (event data)))
          else (st, []))"

definition on_message_mvp :: "server \<Rightarrow> string \<Rightarrow> env \<Rightarrow> message \<Rightarrow> server \<times> sent" where
  "on_message_mvp st cid e data =
     (if mtype data = ''create-session'' then create_session st cid e
      else if mtype data = ''join-session'' then join_session_mvp st cid data
      else if mtype data = ''offer'' \<or> mtype data = ''answer'' \<or> mtype data = ''ice-candidate''
      then relay_mvp st cid data
      else if mtype data = ''toggle-control'' then toggle_control st cid data
      else if mtype data = ''control-event'' then control_event_mvp st cid data
      else (st, send cid (Error ''unknown-type'')))"

text \<open>The \<^verbatim>\<open>close\<close> event (part_001 169-202).\<close>

definition on_close_mvp :: "server \<Rightarrow> string \<Rightarrow> server \<times> sent" where
  "on_close_mvp st cid =
     (let sessionId = ws_sessionId (sockets st cid);
          st1 = st\<lparr>clients := removeAll cid (clients st)\<rparr> in
      if \<not> truthy sessionId then (st1, [])
      else
        (case find_session st1 (key_of sessionId) of
           None \<Rightarrow> (st1, [])
         | Some (code, s) \<Rightarrow>
             if hostId s = cid then
               (st1\<lparr>sessions := sessions_delete code (sessions st1)\<rparr>,
                if truthy (clientId s) \<and> live st1 (key_of (clientId s))
                then send (key_of (clientId s)) HostDisconnected else [])
             else if clientId s = Some cid then
               (st1\<lparr>sessions := session_assign (has_id (key_of sessionId))
                     (\<lambda>s. s\<lparr>clientId := None, controlEnabled := False\<rparr>) (sessions st1)\<rparr>,
                if live st1 (hostId s) then send (hostId s) ClientDisconnected else [])
             else (st1, [])))"

subsection \<open>The hb listing (server.js 144-372)\<close>

text \<open>The \<^verbatim>\<open>pong\<close> handler \<^verbatim>\<open>heartbeat\<close>. The ping loop itself is outside the model.\<close>

definition heartbeat :: "server \<Rightarrow> string \<Rightarrow> server" where
  "heartbeat st cid = st\<lparr>sockets := (sockets st)(cid := (sockets st cid)\<lparr>isAlive := True\<rparr>)\<rparr>"

text \<open>The first \<^verbatim>\<open>reconnect-session\<close> handler (server.js 193-216).\<close>

definition reconnect_session_hb :: "server \<Rightarrow> string \<Rightarrow> message \<Rightarrow> server \<times> sent" where
  "reconnect_session_hb st cid data =
     (if sessionCode data = [] then (st, [])
      else
        (case sessions_get st (sessionCode data) of
           None \<Rightarrow> (st, [])
         | Some session \<Rightarrow>
             (let st1 = set_ws_role cid (role data) (set_ws_sessionId cid (id_s session) st) in
              if role data = ''host'' then
                (st1\<lparr>sessions := session_assign (at_code (sessionCode data))
                      (\<lambda>s. s\<lparr>hostId := cid, hostOffline := False\<rparr>) (sessions st)\<rparr>,
                 (if truthy (clientId session) \<and> live st (key_of (clientId session))
                  then send (key_of (clientId session)) HostReconnected else [])
                   @ send cid (SessionRejoined (id_s session)))
              else
                (st1\<lparr>sessions := session_assign (at_code (sessionCode data))
                      (\<lambda>s. s\<lparr>clientId := Some cid, clientOffline := False\<rparr>) (sessions st)\<rparr>,
                 (if live st (hostId session)
                  then send (hostId session) ClientReconnected else [])
                   @ send cid (SessionRejoined (id_s session))))))"

text \<open>\<^verbatim>\<open>create-session\<close> (server.js 219-236), which also sets the role of the socket.\<close>

definition create_session_hb :: "server \<Rightarrow> string \<Rightarrow> env \<Rightarrow> server \<times> sent" where
  "create_session_hb st cid e =
     (let r = create_session st cid e in (set_ws_role cid ''host'' (fst r), snd r))"

text \<open>\<^verbatim>\<open>join-session\<close> (server.js 239-261).\<close>

definition join_session_hb :: "server \<Rightarrow> string \<Rightarrow> message \<Rightarrow> server \<times> sent" where
  "join_session_hb st cid data =
     (if sessionCode data = [] then (st, send cid (Error ''invalid-session-code''))
      else
        (case sessions_get st (sessionCode data) of
           None \<Rightarrow> (st, send cid (Error ''invalid-session-code''))
         | Some session \<Rightarrow>
             if \<not> live st (hostId session) then
               (st, send cid (Error ''host-not-available''))
             else if truthy (clientId session) \<and> live st (key_of (clientId session)) then
               (st, send cid (Error ''session-already-has-client''))
             else
               (set_ws_role cid ''client''
                  (set_ws_sessionId cid (id_s session)
                     (st\<lparr>sessions := session_assign (at_code (sessionCode data))
                           (\<lambda>s. s\<lparr>clientId := Some cid\<rparr>) (sessions st)\<rparr>)),
                send cid (SessionJoined (id_s session) (sessionCode data))
                  @ send (hostId session) (ClientJoined cid))))"

text \<open>
  The second \<^verbatim>\<open>reconnect-session\<close> handler (server.js 264-305). The dispatch below reaches
  it only after the first one has declined the type, which never happens.
\<close>

definition reconnect_session_hb2 :: "server \<Rightarrow> string \<Rightarrow> message \<Rightarrow> server \<times> sent" where
  "reconnect_session_hb2 st cid data =
     (if sessionCode data = [] then (st, send cid (ReconnectFailed ''Session no longer exists''))
      else
        (case sessions_get st (sessionCode data) of
           None \<Rightarrow> (st, send cid (ReconnectFailed ''Session no longer exists''))
         | Some session \<Rightarrow>
             if role data = ''host'' then
               (if hostId session \<noteq> [] \<and> live st (hostId session) then
                  (st, send cid (ReconnectFailed ''Host already connected''))
                else
                  (set_ws_role cid ''host''
                     (set_ws_sessionId cid (id_s session)
                        (st\<lparr>sessions := session_assign (at_code (sessionCode data))
                              (\<lambda>s. s\<lparr>hostId := cid, hostOffline := False\<rparr>) (sessions st)\<rparr>)),
                   send cid (ReconnectSuccess (id_s session) (sessionCode data))))
             else if role data = ''client'' then
               (if truthy (clientId session) \<and> live st (key_of (clientId session)) then
                  (st, send cid (ReconnectFailed ''Client already connected''))
                else if \<not> live st (hostId session) then
                  (st, send cid (ReconnectFailed ''Host not available''))
                else
                  (set_ws_role cid ''client''
                     (set_ws_sessionId cid (id_s session)
                        (st\<lparr>sessions := session_assign (at_code (sessionCode data))
                              (\<lambda>s. s\<lparr>clientId := Some cid, clientOffline := False\<rparr>) (sessions st)\<rparr>)),
                   send cid (ReconnectSuccess (id_s session) (sessionCode data))
                     @ send (hostId session) (ClientJoined cid)))
             else (st, send cid (ReconnectFailed ''Invalid role''))))"

text \<open>The relay (server.js 308-319): an unreachable peer gets nothing, and neither does the sender.\<close>

definition relay_hb :: "server \<Rightarrow> string \<Rightarrow> message \<Rightarrow> server \<times> sent" where
  "relay_hb st cid data =
     (case find_session st (sessionId data) of
        None \<Rightarrow> (st, send cid (Error ''unknown-session''))
      | Some (code, session) \<Rightarrow>
          if live st (key_of (targetId session cid))
          then (st, send (key_of (targetId session cid)) (Signal (mtype data) cid (payload data)))
          else (st, []))"

text \<open>\<^verbatim>\<open>toggle-control\<close> (server.js 322-330).\<close>

definition toggle_control_hb :: "server \<Rightarrow> string \<Rightarrow> message \<Rightarrow> server \<times> sent" where
  "toggle_control_hb st cid data =
     (case find_session st (sessionId data) of
        None \<Rightarrow> (st, [])
      | Some (code, session) \<Rightarrow>
          if hostId session = cid then
            (st\<lparr>sessions := session_assign (has_id (sessionId data))
                  (\<lambda>s. s\<lparr>controlEnabled := enabled data\<rparr>) (sessions st)\<rparr>,
             broadcastToSession st (id_s session) (ControlStatus (enabled data)))
          else (st, []))"

definition on_message_hb :: "server \<Rightarrow> string \<Rightarrow> env \<Rightarrow> message \<Rightarrow> server \<times> sent" where
  "on_message_hb st cid e data =
     (if mtype data = ''reconnect-session'' then reconnect_session_hb st cid data
      else if mtype data = ''create-session'' then create_session_hb st cid e
      else if mtype data = ''join-session'' then join_session_hb st cid data
      else if mtype data = ''reconnect-session'' then reconnect_session_hb2 st cid data
      else if is_signal (mtype data) then relay_hb st cid data
      else if mtype data = ''toggle-control'' then toggle_control_hb st cid data
      else (st, []))"

text \<open>The \<^verbatim>\<open>close\<close> event (server.js 333-356).\<close>

definition on_close_hb :: "server \<Rightarrow> string \<Rightarrow> server \<times> sent" where
  "on_close_hb st cid =
     (let sessionId = ws_sessionId (sockets st cid);
          st1 = st\<lparr>clients := removeAll cid (clients st)\<rparr> in
      if \<not> truthy sessionId then (st1, [])
      else
        (case find_session st1 (key_of sessionId) of
           None \<Rightarrow> (st1, [])
         | Some (code, s) \<Rightarrow>
             if hostId s = cid then
               (st1\<lparr>sessions := session_assign (has_id (key_of sessionId))
                     (\<lambda>s. s\<lparr>hostOffline := True\<rparr>) (sessions st1)\<rparr>,
                if truthy (clientId s) \<and> live st1 (key_of (clientId s))
                then send (key_of (clientId s)) HostOffline else [])
             else if clientId s = Some cid then
               (st1\<lparr>sessions := session_assign (has_id (key_of sessionId))
                     (\<lambda>s. s\<lparr>clientOffline := True, controlEnabled := False\<rparr>) (sessions st1)\<rparr>,
                if live st1 (hostId s) then send (hostId s) ClientOffline else [])
             else (st1, [])))"

subsection \<open>Sequences of messages and sample states\<close>

text \<open>A sequence of \<^verbatim>\<open>toggle-control\<close> messages, each with its sender, handled in order.\<close>

fun toggles :: "server \<Rightarrow> (string \<times> message) list \<Rightarrow> server" where
  "toggles st [] = st"
| "toggles st (m # ms) = toggles (fst (toggle_control st (fst m) (snd m))) ms"

text \<open>
  The events of a process: a connection is accepted, a message arrives on a connection, a
  connection closes, a pending timeout fires. The mvp and hb listings set no timeouts.
\<close>

datatype event =
    Connection env
  | Message string env message
  | Close string
  | Timeout nat

definition step_grace :: "server \<Rightarrow> event \<Rightarrow> server \<times> sent" where
  "step_grace st ev =
     (case ev of
        Connection e \<Rightarrow> on_connection st e
      | Message cid e data \<Rightarrow> on_message_grace st cid e data
      | Close cid \<Rightarrow> on_close_grace st cid
      | Timeout h \<Rightarrow> on_timeout st h)"

definition step_restore :: "server \<Rightarrow> event \<Rightarrow> server \<times> sent" where
  "step_restore st ev =
     (case ev of
        Connection e \<Rightarrow> on_connection st e
      | Message cid e data \<Rightarrow> on_message_restore st cid e data
      | Close cid \<Rightarrow> on_close_grace st cid
      | Timeout h \<Rightarrow> on_timeout st h)"

definition step_mvp :: "server \<Rightarrow> event \<Rightarrow> server \<times> sent" where
  "step_mvp st ev =
     (case ev of
        Connection e \<Rightarrow> on_connection st e
      | Message cid e data \<Rightarrow> on_message_mvp st cid e data
      | Close cid \<Rightarrow> on_close_mvp st cid
      | Timeout h \<Rightarrow> (st, []))"

definition step_hb :: "server \<Rightarrow> event \<Rightarrow> server \<times> sent" where
  "step_hb st ev =
     (case ev of
        Connection e \<Rightarrow> on_connection st e
      | Message cid e data \<Rightarrow> on_message_hb st cid e data
      | Close cid \<Rightarrow> on_close_hb st cid
      | Timeout h \<Rightarrow> (st, []))"

text \<open>The state after a sequence of events, handled one at a time.\<close>

fun run :: "(server \<Rightarrow> event \<Rightarrow> server \<times> sent) \<Rightarrow> server \<Rightarrow> event list \<Rightarrow> server" where
  "run step st [] = st"
| "run step st (ev # evs) = run step (fst (step st ev)) evs"

text \<open>
  A session under code 482193 with host \<open>h1\<close> and client \<open>c1\<close>, control enabled, and a
  third connection \<open>x9\<close> that belongs to no session.
\<close>

definition sock :: "string option \<Rightarrow> socket" where
  "sock sid = \<lparr>ws_sessionId = sid, ws_role = None, isAlive = True\<rparr>"

definition ex_session :: session where
  "ex_session = \<lparr>id_s = ''s-1'', hostId = ''h1'', clientId = Some ''c1'', createdAt = 0,
     controlEnabled = True, hostOffline = False, clientOffline = False\<rparr>"

definition ex_paired :: server where
  "ex_paired = \<lparr>sessions = [(''482193'', ex_session)], clients = [''h1'', ''c1'', ''x9''],
     sockets = (\<lambda>k. sock None)(''h1'' := sock (Some ''s-1''), ''c1'' := sock (Some ''s-1'')),
     timers = Map.empty, disconnectTimers = Map.empty, nextTimer = 0,
     issued = [''x9'', ''c1'', ''s-1'', ''h1'']\<rparr>"

definition ex_env :: env where
  "ex_env = \<lparr>rnd = 382193, uuid = ''s-2'', now = 7\<rparr>"

definition envelope :: "string \<Rightarrow> message" where
  "envelope t = \<lparr>mtype = t, sessionCode = ''482193'', sessionId = ''s-1'', role = ''host'',
     enabled = False, payload = ''sdp'', event = ''click''\<rparr>"

section \<open>Properties\<close>

subsection \<open>Facts about the store\<close>

lemmas ex_defs = sock_def ex_session_def ex_paired_def ex_env_def envelope_def

lemmas ex_simps = ex_defs find_session_def has_id_def live_def sessions_get_def

lemmas handler_defs = on_message_grace_def on_message_restore_def on_message_mvp_def
  on_message_hb_def is_signal_def send_def

lemma map_of_place: "map_of al k = None \<Longrightarrow> map_of (place k v al) = (map_of al)(k \<mapsto> v)"
  by (induction al) (auto simp: fun_eq_iff split: if_splits)

lemma map_of_replace: "map_of al k \<noteq> None \<Longrightarrow> map_of (replace k v al) = (map_of al)(k \<mapsto> v)"
  by (induction al) (auto simp: fun_eq_iff split: if_splits)

lemma map_of_sessions_set: "map_of (sessions_set k v al) = (map_of al)(k \<mapsto> v)"
  by (simp add: sessions_set_def map_of_place map_of_replace)

lemma keys_place: "fst ` set (place k v al) = insert k (fst ` set al)"
  by (induction al) auto

lemma keys_replace: "fst ` set (replace k v al) = fst ` set al"
  by (induction al) auto

lemma distinct_place:
  "map_of al k = None \<Longrightarrow> distinct (map fst al) \<Longrightarrow> distinct (map fst (place k v al))"
  by (induction al) (auto simp: keys_place map_of_eq_None_iff split: if_splits)

lemma distinct_replace: "distinct (map fst al) \<Longrightarrow> distinct (map fst (replace k v al))"
  by (induction al) (auto simp: keys_replace)

lemma distinct_sessions_set:
  "distinct (map fst al) \<Longrightarrow> distinct (map fst (sessions_set k v al))"
  by (simp add: sessions_set_def distinct_place distinct_replace)

lemma set_place: "set (place k v al) = insert (k, v) (set al)"
  by (induction al) auto

lemma set_replace: "set (replace k v al) \<subseteq> insert (k, v) (set al)"
  by (induction al) auto

lemma set_sessions_set: "set (sessions_set k v al) \<subseteq> insert (k, v) (set al)"
  by (simp add: sessions_set_def set_place set_replace)

lemma map_of_sessions_delete: "map_of (sessions_delete k al) = (map_of al)(k := None)"
  by (induction al) (auto simp: sessions_delete_def fun_eq_iff)

lemma map_of_assign_at_code:
  "map_of (session_assign (at_code k) f al) =
     (case map_of al k of None \<Rightarrow> map_of al | Some s \<Rightarrow> (map_of al)(k \<mapsto> f s))"
  by (induction al) (auto simp: at_code_def fun_eq_iff split: option.splits)

text \<open>An assignment that leaves \<^verbatim>\<open>id\<close> alone leaves the identifiers of the store alone.\<close>

lemma ids_session_assign:
  "(\<And>s. id_s (f s) = id_s s) \<Longrightarrow>
   map (\<lambda>q. id_s (snd q)) (session_assign P f al) = map (\<lambda>q. id_s (snd q)) al"
  by (induction al) auto

lemma ids_toggle_control:
  "map (\<lambda>q. id_s (snd q)) (sessions (fst (toggle_control st cid d)))
     = map (\<lambda>q. id_s (snd q)) (sessions st)"
  by (auto simp: toggle_control_def ids_session_assign split: option.splits)

lemma ids_toggles:
  "map (\<lambda>q. id_s (snd q)) (sessions (toggles st ms)) = map (\<lambda>q. id_s (snd q)) (sessions st)"
  by (induction ms arbitrary: st) (simp_all add: ids_toggle_control)

text \<open>Where identifiers are distinct, the search by identifier finds the session that has it.\<close>

lemma find_has_id_distinct:
  assumes "distinct (map (\<lambda>q. id_s (snd q)) al)" and "(code, s) \<in> set al"
  shows "find (has_id (id_s s)) al = Some (code, s)"
  using assms
proof (induction al)
  case Nil
  then show ?case by simp
next
  case (Cons p ps)
  show ?case
  proof (cases "p = (code, s)")
    case True
    then show ?thesis by (simp add: has_id_def)
  next
    case False
    with Cons.prems have mem: "(code, s) \<in> set ps" by simp
    then have a: "id_s s \<in> (\<lambda>q. id_s (snd q)) ` set ps" by force
    from Cons.prems have b: "id_s (snd p) \<notin> (\<lambda>q. id_s (snd q)) ` set ps"
      by simp
    have ne: "id_s (snd p) \<noteq> id_s s"
    proof
      assume "id_s (snd p) = id_s s"
      with a b show False by simp
    qed
    from Cons.prems have "distinct (map (\<lambda>q. id_s (snd q)) ps)" by simp
    with Cons.IH mem have "find (has_id (id_s s)) ps = Some (code, s)" by simp
    moreover from ne have "\<not> has_id (id_s s) p" by (simp add: has_id_def)
    ultimately show ?thesis by simp
  qed
qed

lemma find_assign_has_id:
  "id_s (f s) = id_s s \<Longrightarrow> find (has_id sid) al = Some (code, s) \<Longrightarrow>
   find (has_id sid) (session_assign (has_id sid) f al) = Some (code, f s)"
  by (induction al) (auto simp: has_id_def split: if_splits)

lemma session_assign_idem:
  "(\<And>s. f (f s) = f s) \<Longrightarrow> (\<And>s. id_s (f s) = id_s s) \<Longrightarrow>
   session_assign (has_id sid) f (session_assign (has_id sid) f al) = session_assign (has_id sid) f al"
  by (induction al) (auto simp: has_id_def)

lemma find_session_clients [simp]:
  "find_session (st\<lparr>clients := cs\<rparr>) sid = find_session st sid"
  by (simp add: find_session_def)

lemma live_removeAll:
  "k \<noteq> cid \<Longrightarrow> live (st\<lparr>clients := removeAll cid (clients st)\<rparr>) k = live st k"
  by (simp add: live_def)

subsection \<open>Facts about codes and identifiers\<close>

text \<open>The decimal numeral of a number consists of digits and denotes the number.\<close>

lemma digit_char_digit: "d < 10 \<Longrightarrow> is_digit (digit_char d)"
  unfolding digit_char_def is_digit_def by (rule nth_mem) simp

lemma digit_of_digit_char: "d < 10 \<Longrightarrow> digit_of (digit_char d) = d"
proof -
  assume "d < 10"
  then have "d = 0 \<or> d = 1 \<or> d = 2 \<or> d = 3 \<or> d = 4 \<or> d = 5 \<or> d = 6 \<or> d = 7 \<or> d = 8 \<or> d = 9"
    by arith
  then show ?thesis
    by (elim disjE) (simp_all add: digit_char_def digit_of_def)
qed

lemma string_of_nat_small: "n < 10 \<Longrightarrow> string_of_nat n = [digit_char n]"
  by (simp add: string_of_nat.simps)

lemma string_of_nat_large:
  "\<not> n < 10 \<Longrightarrow> string_of_nat n = string_of_nat (n div 10) @ [digit_char (n mod 10)]"
  by (subst string_of_nat.simps) simp

lemma string_of_nat_digits: "list_all is_digit (string_of_nat n)"
proof (induction n rule: string_of_nat.induct)
  case (1 n)
  show ?case
  proof (cases "n < 10")
    case True
    then show ?thesis
      using digit_char_digit [of n] by (simp add: string_of_nat_small)
  next
    case False
    have "n mod 10 < 10" by simp
    then have "is_digit (digit_char (n mod 10))" by (rule digit_char_digit)
    with False "1.IH" show ?thesis
      by (simp add: string_of_nat_large)
  qed
qed

lemma string_of_nat_nonempty: "string_of_nat n \<noteq> []"
  by (cases "n < 10") (simp_all add: string_of_nat_small string_of_nat_large)

lemma code_val_snoc: "code_val (k @ [c]) = 10 * code_val k + digit_of c"
  by (simp add: code_val_def)

lemma code_val_string_of_nat: "code_val (string_of_nat n) = n"
proof (induction n rule: string_of_nat.induct)
  case (1 n)
  show ?case
  proof (cases "n < 10")
    case True
    then show ?thesis
      by (simp add: string_of_nat_small code_val_def digit_of_digit_char)
  next
    case False
    have "n mod 10 < 10" by simp
    then have "digit_of (digit_char (n mod 10)) = n mod 10" by (rule digit_of_digit_char)
    with False "1.IH" show ?thesis
      by (simp add: string_of_nat_large code_val_snoc)
  qed
qed

lemma length_string_of_nat:
  "10 ^ k \<le> n \<Longrightarrow> n < 10 ^ Suc k \<Longrightarrow> length (string_of_nat n) = Suc k"
proof (induction k arbitrary: n)
  case 0
  then show ?case by (simp add: string_of_nat_small)
next
  case (Suc k)
  have a: "(10::nat) \<le> 10 * 10 ^ k" by simp
  from Suc.prems(1) have b: "10 * 10 ^ k \<le> n" by simp
  from a b have "10 \<le> n" by (rule le_trans)
  then have big: "\<not> n < 10" by simp
  from Suc.prems(1) have lo: "10 ^ k \<le> n div 10" by simp
  from Suc.prems(2) have hi: "n div 10 < 10 ^ Suc k" by simp
  from Suc.IH [OF lo hi] big show ?case
    by (simp add: string_of_nat_large)
qed

lemma new_code_six_digits:
  "decimal_code (new_code e) \<and> length (new_code e) = 6
   \<and> code_val (new_code e) = 100000 + rnd e mod 900000"
proof -
  let ?n = "100000 + rnd e mod 900000"
  have "rnd e mod 900000 < 900000" by simp
  then have lo: "10 ^ 5 \<le> ?n" and hi: "?n < 10 ^ Suc 5" by simp_all
  have "length (string_of_nat ?n) = Suc 5" by (rule length_string_of_nat [OF lo hi])
  then show ?thesis
    by (simp add: new_code_def decimal_code_def string_of_nat_digits string_of_nat_nonempty
        code_val_string_of_nat)
qed

lemma length_longer_than_all: "i \<in> set ids \<Longrightarrow> length i < length (longer_than_all ids)"
  by (induction ids) (auto simp: longer_than_all_def)

lemma longer_than_all_fresh: "longer_than_all ids \<notin> set ids"
  using length_longer_than_all [of "longer_than_all ids" ids] by auto

lemma longer_than_all_nonempty: "longer_than_all ids \<noteq> []"
  by (simp add: longer_than_all_def)

lemma uuidv4_fresh:
  "fst (uuidv4 st e) \<notin> set (issued st)" "fst (uuidv4 st e) \<noteq> []"
  by (simp_all add: uuidv4_def Let_def longer_than_all_fresh longer_than_all_nonempty)

lemma uuidv4_state: "snd (uuidv4 st e) = st\<lparr>issued := fst (uuidv4 st e) # issued st\<rparr>"
  by (simp add: uuidv4_def Let_def)

lemma decimal_code_nonempty: "decimal_code k \<Longrightarrow> k \<noteq> []"
  by (simp add: decimal_code_def)

lemma decimal_code_482193: "decimal_code ''482193''" and decimal_code_100000: "decimal_code ''100000''"
  by (simp_all add: decimal_code_def is_digit_def)

text \<open>Only \<^verbatim>\<open>uuidv4\<close> adds to the identifiers issued, and no handler removes one.\<close>

lemma issued_sets [simp]:
  "issued (set_ws_sessionId cid v st) = issued st"
  "issued (set_ws_role cid v st) = issued st"
  "issued (arm t st) = issued st"
  "issued (clearTimeout h st) = issued st"
  by (simp_all add: set_ws_sessionId_def set_ws_role_def arm_def clearTimeout_def
      split: option.splits)

lemma issued_create_session:
  "issued (fst (create_session st cid e)) = fst (uuidv4 st e) # issued st"
  by (simp add: create_session_def Let_def uuidv4_state)

lemma issued_on_connection:
  "issued (fst (on_connection st e)) = fst (uuidv4 st e) # issued st"
  by (simp add: on_connection_def Let_def uuidv4_state)

lemma issued_join_session: "issued (fst (join_session st cid data)) = issued st"
  by (simp add: join_session_def split: option.splits)

lemma issued_relay: "issued (fst (relay st cid data)) = issued st"
  by (simp add: relay_def split: option.splits)

lemma issued_toggle_control: "issued (fst (toggle_control st cid data)) = issued st"
  by (simp add: toggle_control_def split: option.splits)

lemma issued_control_event: "issued (fst (control_event st cid data)) = issued st"
  by (simp add: control_event_def split: option.splits)

lemma issued_restore_session: "issued (fst (restore_session st cid data)) = issued st"
  by (simp add: restore_session_def Let_def split: option.splits)

lemma issued_join_session_mvp: "issued (fst (join_session_mvp st cid data)) = issued st"
  by (simp add: join_session_mvp_def issued_join_session)

lemma issued_relay_mvp: "issued (fst (relay_mvp st cid data)) = issued st"
  by (simp add: relay_mvp_def issued_relay)

lemma issued_control_event_mvp: "issued (fst (control_event_mvp st cid data)) = issued st"
  by (simp add: control_event_mvp_def split: option.splits)

lemma issued_reconnect_session_hb: "issued (fst (reconnect_session_hb st cid data)) = issued st"
  by (simp add: reconnect_session_hb_def Let_def split: option.splits)

lemma issued_reconnect_session_hb2: "issued (fst (reconnect_session_hb2 st cid data)) = issued st"
  by (simp add: reconnect_session_hb2_def split: option.splits)

lemma issued_create_session_hb:
  "issued (fst (create_session_hb st cid e)) = fst (uuidv4 st e) # issued st"
  by (simp add: create_session_hb_def Let_def issued_create_session)

lemma issued_join_session_hb: "issued (fst (join_session_hb st cid data)) = issued st"
  by (simp add: join_session_hb_def split: option.splits)

lemma issued_relay_hb: "issued (fst (relay_hb st cid data)) = issued st"
  by (simp add: relay_hb_def split: option.splits)

lemma issued_toggle_control_hb: "issued (fst (toggle_control_hb st cid data)) = issued st"
  by (simp add: toggle_control_hb_def split: option.splits)

lemma issued_on_close_grace: "issued (fst (on_close_grace st cid)) = issued st"
  by (simp add: on_close_grace_def Let_def split: option.splits)

lemma issued_on_close_mvp: "issued (fst (on_close_mvp st cid)) = issued st"
  by (simp add: on_close_mvp_def Let_def split: option.splits)

lemma issued_on_close_hb: "issued (fst (on_close_hb st cid)) = issued st"
  by (simp add: on_close_hb_def Let_def split: option.splits)

lemma issued_callback: "issued (fst (callback t st)) = issued st"
  by (simp add: callback_def split: option.splits slot.splits)

lemma issued_on_timeout: "issued (fst (on_timeout st h)) = issued st"
  by (simp add: on_timeout_def issued_callback split: option.splits)

lemmas issued_handlers = issued_create_session issued_on_connection issued_join_session
  issued_relay issued_toggle_control issued_control_event issued_restore_session
  issued_join_session_mvp issued_relay_mvp issued_control_event_mvp
  issued_reconnect_session_hb issued_reconnect_session_hb2 issued_create_session_hb
  issued_join_session_hb issued_relay_hb issued_toggle_control_hb issued_on_close_grace
  issued_on_close_mvp issued_on_close_hb issued_on_timeout

text \<open>No event removes an identifier from the record of the generator.\<close>

lemma issued_step_grace: "set (issued st) \<subseteq> set (issued (fst (step_grace st ev)))"
  by (cases ev) (auto simp: step_grace_def on_message_grace_def issued_handlers)

lemma issued_step_restore: "set (issued st) \<subseteq> set (issued (fst (step_restore st ev)))"
  by (cases ev) (auto simp: step_restore_def on_message_restore_def issued_handlers)

lemma issued_step_mvp: "set (issued st) \<subseteq> set (issued (fst (step_mvp st ev)))"
  by (cases ev) (auto simp: step_mvp_def on_message_mvp_def issued_handlers)

lemma issued_step_hb: "set (issued st) \<subseteq> set (issued (fst (step_hb st ev)))"
  by (cases ev) (auto simp: step_hb_def on_message_hb_def issued_handlers)

lemma issued_run:
  assumes "\<And>st ev. set (issued st) \<subseteq> set (issued (fst (step st ev)))"
  shows "set (issued st) \<subseteq> set (issued (run step st evs))"
proof (induction evs arbitrary: st)
  case Nil
  show ?case by simp
next
  case (Cons ev evs)
  have "set (issued st) \<subseteq> set (issued (fst (step st ev)))" by (rule assms)
  also have "\<dots> \<subseteq> set (issued (run step (fst (step st ev)) evs))" by (rule Cons.IH)
  finally show ?case by simp
qed

text \<open>An identifier returned earlier in a run differs from the one returned now.\<close>

lemma uuidv4_after_run:
  assumes "\<And>st ev. set (issued st) \<subseteq> set (issued (fst (step st ev)))"
    and "i \<in> set (issued st1)" and "st = run step st1 evs"
  shows "i \<noteq> fst (uuidv4 st e)"
proof -
  have "i \<in> set (issued st)"
    using issued_run [of step st1 evs, OF assms(1)] assms(2,3) by auto
  with uuidv4_fresh(1) [of st e] show ?thesis by auto
qed

subsection \<open>C1: control after the client's connection closes\<close>

text \<open>
  The close handlers on a connection whose socket is bound to a session of which it holds
  the client slot and not the host slot.
\<close>

lemma on_close_hb_client:
  assumes "ws_sessionId (sockets st cid) = Some sid" and "sid \<noteq> []"
    and "find_session st sid = Some (code, s)"
    and "hostId s \<noteq> cid" and "clientId s = Some cid"
  shows "on_close_hb st cid =
     (st\<lparr>clients := removeAll cid (clients st),
         sessions := session_assign (has_id sid)
           (\<lambda>s. s\<lparr>clientOffline := True, controlEnabled := False\<rparr>) (sessions st)\<rparr>,
      if live st (hostId s) then [(hostId s, ClientOffline)] else [])"
  using assms by (simp add: on_close_hb_def Let_def send_def live_removeAll)

lemma on_close_mvp_client:
  assumes "ws_sessionId (sockets st cid) = Some sid" and "sid \<noteq> []"
    and "find_session st sid = Some (code, s)"
    and "hostId s \<noteq> cid" and "clientId s = Some cid"
  shows "on_close_mvp st cid =
     (st\<lparr>clients := removeAll cid (clients st),
         sessions := session_assign (has_id sid)
           (\<lambda>s. s\<lparr>clientId := None, controlEnabled := False\<rparr>) (sessions st)\<rparr>,
      if live st (hostId s) then [(hostId s, ClientDisconnected)] else [])"
  using assms by (simp add: on_close_mvp_def Let_def send_def live_removeAll)

lemma on_close_mvp_unbound:
  assumes "ws_sessionId (sockets st cid) = Some sid"
    and "find_session st sid = Some (code, s)"
    and "hostId s \<noteq> cid" and "clientId s \<noteq> Some cid"
  shows "on_close_mvp st cid = (st\<lparr>clients := removeAll cid (clients st)\<rparr>, [])"
  using assms by (simp add: on_close_mvp_def Let_def)

lemma on_close_grace_client:
  assumes "ws_sessionId (sockets st cid) = Some sid" and "sid \<noteq> []"
    and "find_session st sid = Some (code, s)"
    and "hostId s \<noteq> cid" and "clientId s = Some cid"
  shows "on_close_grace st cid =
     (arm \<lparr>t_code = code, t_slot = ClientSlot, t_cid = cid\<rparr>
        (st\<lparr>clients := removeAll cid (clients st)\<rparr>), [])"
  using assms by (simp add: on_close_grace_def Let_def)

text \<open>
  Claim C1, as amended. Let a connection close whose socket is bound to session
  identifier \<open>sid\<close>, let the search by identifier find session \<open>s\<close>, and let the connection
  hold the client slot of \<open>s\<close> and not its host slot. In the hb listing the close handler
  itself sets \<^verbatim>\<open>controlEnabled\<close> to false (and \<^verbatim>\<open>clientOffline\<close> to true), and in the mvp
  listing it sets \<^verbatim>\<open>controlEnabled\<close> to false and clears the client slot; in both, running
  the handler a second time leaves the state as the first run left it. In the grace
  listing (and the restore listing, which has the same close handler) the close changes no
  session: it arms a timer for (code, client, connection), and \<^verbatim>\<open>controlEnabled\<close> is
  reset only when that timer fires (see C3).
\<close>

theorem client_close_control:
  assumes "ws_sessionId (sockets st cid) = Some sid" and "sid \<noteq> []"
    and "find_session st sid = Some (code, s)"
    and "hostId s \<noteq> cid" and "clientId s = Some cid"
  shows "find_session (fst (on_close_hb st cid)) sid =
           Some (code, s\<lparr>clientOffline := True, controlEnabled := False\<rparr>)
       \<and> fst (on_close_hb (fst (on_close_hb st cid)) cid) = fst (on_close_hb st cid)
       \<and> find_session (fst (on_close_mvp st cid)) sid =
           Some (code, s\<lparr>clientId := None, controlEnabled := False\<rparr>)
       \<and> fst (on_close_mvp (fst (on_close_mvp st cid)) cid) = fst (on_close_mvp st cid)
       \<and> sessions (fst (on_close_grace st cid)) = sessions st
       \<and> timers (fst (on_close_grace st cid)) (nextTimer st) =
           Some \<lparr>t_code = code, t_slot = ClientSlot, t_cid = cid\<rparr>
       \<and> snd (on_close_grace st cid) = []"
proof -
  let ?off = "\<lambda>s::session. s\<lparr>clientOffline := True, controlEnabled := False\<rparr>"
  let ?gone = "\<lambda>s::session. s\<lparr>clientId := None, controlEnabled := False\<rparr>"
  let ?hb = "st\<lparr>clients := removeAll cid (clients st),
         sessions := session_assign (has_id sid) ?off (sessions st)\<rparr>"
  let ?mvp = "st\<lparr>clients := removeAll cid (clients st),
         sessions := session_assign (has_id sid) ?gone (sessions st)\<rparr>"
  have hb: "fst (on_close_hb st cid) = ?hb"
    by (simp add: on_close_hb_client [OF assms])
  have mvp: "fst (on_close_mvp st cid) = ?mvp"
    by (simp add: on_close_mvp_client [OF assms])
  have fhb: "find_session ?hb sid = Some (code, ?off s)"
    using assms(3) find_assign_has_id [of ?off s sid "sessions st" code]
    by (simp add: find_session_def)
  have fmvp: "find_session ?mvp sid = Some (code, ?gone s)"
    using assms(3) find_assign_has_id [of ?gone s sid "sessions st" code]
    by (simp add: find_session_def)
  have hb2: "fst (on_close_hb ?hb cid) = ?hb"
  proof -
    have "ws_sessionId (sockets ?hb cid) = Some sid" using assms(1) by simp
    moreover have "hostId (?off s) \<noteq> cid" "clientId (?off s) = Some cid"
      using assms(4,5) by simp_all
    ultimately have "on_close_hb ?hb cid =
       (?hb\<lparr>clients := removeAll cid (clients ?hb),
         sessions := session_assign (has_id sid) ?off (sessions ?hb)\<rparr>,
        if live ?hb (hostId (?off s)) then [(hostId (?off s), ClientOffline)] else [])"
      using on_close_hb_client [OF _ assms(2) fhb] by blast
    then show ?thesis
      by (simp add: session_assign_idem)
  qed
  have mvp2: "fst (on_close_mvp ?mvp cid) = ?mvp"
  proof -
    have "ws_sessionId (sockets ?mvp cid) = Some sid" using assms(1) by simp
    moreover have "hostId (?gone s) \<noteq> cid" "clientId (?gone s) \<noteq> Some cid"
      using assms(4) by simp_all
    ultimately have "on_close_mvp ?mvp cid = (?mvp\<lparr>clients := removeAll cid (clients ?mvp)\<rparr>, [])"
      using on_close_mvp_unbound [OF _ fmvp] by blast
    then show ?thesis by simp
  qed
  have g: "sessions (fst (on_close_grace st cid)) = sessions st"
    "timers (fst (on_close_grace st cid)) (nextTimer st) =
           Some \<lparr>t_code = code, t_slot = ClientSlot, t_cid = cid\<rparr>"
    "snd (on_close_grace st cid) = []"
    by (simp_all add: on_close_grace_client [OF assms] arm_def)
  show ?thesis
    unfolding hb mvp using fhb fmvp hb2 mvp2 g by simp
qed

theorem client_close_control_witness:
  "find_session (fst (on_close_hb ex_paired ''c1'')) ''s-1''
     = Some (''482193'', ex_session\<lparr>clientOffline := True, controlEnabled := False\<rparr>)
   \<and> fst (on_close_hb (fst (on_close_hb ex_paired ''c1'')) ''c1'') = fst (on_close_hb ex_paired ''c1'')
   \<and> find_session (fst (on_close_mvp ex_paired ''c1'')) ''s-1''
     = Some (''482193'', ex_session\<lparr>clientId := None, controlEnabled := False\<rparr>)
   \<and> fst (on_close_mvp (fst (on_close_mvp ex_paired ''c1'')) ''c1'') = fst (on_close_mvp ex_paired ''c1'')
   \<and> sessions (fst (on_close_grace ex_paired ''c1'')) = sessions ex_paired
   \<and> timers (fst (on_close_grace ex_paired ''c1'')) 0
     = Some \<lparr>t_code = ''482193'', t_slot = ClientSlot, t_cid = ''c1''\<rparr>"
proof -
  have h1: "ws_sessionId (sockets ex_paired ''c1'') = Some ''s-1''"
    by (simp add: ex_defs)
  have h2: "''s-1'' \<noteq> []" by simp
  have h3: "find_session ex_paired ''s-1'' = Some (''482193'', ex_session)"
    by (simp add: ex_simps)
  have h4: "hostId ex_session \<noteq> ''c1''" and h5: "clientId ex_session = Some ''c1''"
    by (simp_all add: ex_session_def)
  have n: "nextTimer ex_paired = 0" by (simp add: ex_paired_def)
  show ?thesis
    using client_close_control [OF h1 h2 h3 h4 h5] n by simp
qed

text \<open>
  The claim as first stated fails in the grace listing (server.js 122-132): the client
  \<open>c1\<close> closes while control is enabled, and after the close handler the session is
  exactly as before, with \<^verbatim>\<open>controlEnabled\<close> still true.
\<close>

theorem client_close_grace_counterexample:
  "ws_sessionId (sockets ex_paired ''c1'') = Some ''s-1''
   \<and> sessions_get ex_paired ''482193'' = Some ex_session
   \<and> id_s ex_session = ''s-1'' \<and> clientId ex_session = Some ''c1'' \<and> controlEnabled ex_session
   \<and> sessions_get (fst (on_close_grace ex_paired ''c1'')) ''482193'' = Some ex_session
   \<and> snd (on_close_grace ex_paired ''c1'') = []"
  by (simp add: on_close_grace_def arm_def ex_simps Let_def)

subsection \<open>C2: a reconnect that claims an occupied host slot\<close>

text \<open>
  In the restore listing a \<^verbatim>\<open>restore-session\<close> for the role \<^verbatim>\<open>host\<close> is refused while the
  host is in the registry, and neither the store nor the registry changes.
\<close>

lemma restore_session_host_occupied:
  assumes "sessions_get st (sessionCode data) = Some session" and "role data = ''host''"
    and "live st (hostId session)"
  shows "snd (restore_session st cid data) = [(cid, Error ''no-session-to-restore'')]"
    and "sessions (fst (restore_session st cid data)) = sessions st"
    and "clients (fst (restore_session st cid data)) = clients st"
  using assms
  by (simp_all add: restore_session_def Let_def send_def clearTimeout_def split: option.splits)

text \<open>
  Claim C2 on the hb listing. Host \<open>h1\<close> is connected and holds the host slot of the
  session under 482193. Connection \<open>x9\<close> sends \<^verbatim>\<open>reconnect-session\<close> with that code and
  the role \<^verbatim>\<open>host\<close>. The first handler for that type (server.js 193-216) runs: it puts
  \<open>x9\<close> in the host slot, tells the client that the host has reconnected and answers
  \<^verbatim>\<open>session-rejoined\<close>; no error is sent, and \<open>h1\<close> is still connected and bound to the
  session. The second handler for the same type (server.js 264-305), which the first one
  shadows, would have answered \<^verbatim>\<open>Host already connected\<close> and changed nothing.
\<close>

theorem reconnect_session_host_takeover:
  "live ex_paired ''h1'' \<and> sessions_get ex_paired ''482193'' = Some ex_session
   \<and> hostId ex_session = ''h1''
   \<and> on_message_hb ex_paired ''x9'' ex_env (envelope ''reconnect-session'')
       = (ex_paired\<lparr>sessions := [(''482193'', ex_session\<lparr>hostId := ''x9''\<rparr>)],
            sockets := (sockets ex_paired)
              (''x9'' := \<lparr>ws_sessionId = Some ''s-1'', ws_role = Some ''host'', isAlive = True\<rparr>)\<rparr>,
          [(''c1'', HostReconnected), (''x9'', SessionRejoined ''s-1'')])
   \<and> live (fst (on_message_hb ex_paired ''x9'' ex_env (envelope ''reconnect-session''))) ''h1''
   \<and> ws_sessionId (sockets (fst (on_message_hb ex_paired ''x9'' ex_env (envelope ''reconnect-session''))) ''h1'')
       = Some ''s-1''
   \<and> reconnect_session_hb2 ex_paired ''x9'' (envelope ''reconnect-session'')
       = (ex_paired, [(''x9'', ReconnectFailed ''Host already connected'')])"
  by (simp add: ex_simps on_message_hb_def reconnect_session_hb_def reconnect_session_hb2_def
      set_ws_sessionId_def set_ws_role_def send_def at_code_def Let_def)

subsection \<open>C3: what a grace-period timer does when it fires\<close>

text \<open>The four ways through a timer callback.\<close>

lemma callback_absent:
  "sessions_get st (t_code t) = None \<Longrightarrow> callback t st = (st, [])"
  by (simp add: callback_def)

lemma callback_stale:
  "sessions_get st (t_code t) = Some s \<Longrightarrow>
   (t_slot t = HostSlot \<and> hostId s \<noteq> t_cid t) \<or> (t_slot t = ClientSlot \<and> clientId s \<noteq> Some (t_cid t)) \<Longrightarrow>
   callback t st = (st, [])"
  by (auto simp: callback_def)

lemma callback_host:
  "sessions_get st (t_code t) = Some s \<Longrightarrow> t_slot t = HostSlot \<Longrightarrow> hostId s = t_cid t \<Longrightarrow>
   callback t st =
     (st\<lparr>sessions := sessions_delete (t_code t) (sessions st)\<rparr>,
      if truthy (clientId s) \<and> live st (key_of (clientId s))
      then [(key_of (clientId s), HostDisconnected)] else [])"
  by (simp add: callback_def send_def)

lemma callback_client:
  "sessions_get st (t_code t) = Some s \<Longrightarrow> t_slot t = ClientSlot \<Longrightarrow> clientId s = Some (t_cid t) \<Longrightarrow>
   callback t st =
     (st\<lparr>sessions := session_assign (at_code (t_code t))
           (\<lambda>s. s\<lparr>clientId := None, controlEnabled := False\<rparr>) (sessions st)\<rparr>,
      if live st (hostId s) then [(hostId s, ClientDisconnected)] else [])"
  by (simp add: callback_def send_def)

text \<open>
  Claim C3. Let a pending timer for (code, role, connection) fire. It leaves the pending
  set, and the registry is untouched. If no session is stored under the code, or the
  role's slot of the stored session names another connection than the timer's, nothing
  else happens and nothing is sent. If the timer is a host timer and the host slot still
  names its connection, the session is removed from the store, other sessions stay, and
  \<^verbatim>\<open>host-disconnected\<close> goes to the client if one is bound and in the registry. If it is a
  client timer and the client slot still names its connection, the session stays in the
  store with its client slot cleared and \<^verbatim>\<open>controlEnabled\<close> false, other sessions stay,
  and \<^verbatim>\<open>client-disconnected\<close> goes to the host if it is in the registry.
\<close>

theorem grace_timer_fires:
  assumes "timers st h = Some t"
  shows "(sessions_get st (t_code t) = None \<longrightarrow>
            on_timeout st h = (st\<lparr>timers := (timers st)(h := None)\<rparr>, []))
       \<and> (\<forall>s. sessions_get st (t_code t) = Some s \<longrightarrow>
            (t_slot t = HostSlot \<and> hostId s \<noteq> t_cid t \<longrightarrow>
               on_timeout st h = (st\<lparr>timers := (timers st)(h := None)\<rparr>, []))
          \<and> (t_slot t = ClientSlot \<and> clientId s \<noteq> Some (t_cid t) \<longrightarrow>
               on_timeout st h = (st\<lparr>timers := (timers st)(h := None)\<rparr>, []))
          \<and> (t_slot t = HostSlot \<and> hostId s = t_cid t \<longrightarrow>
               sessions_get (fst (on_timeout st h)) (t_code t) = None
             \<and> (\<forall>k. k \<noteq> t_code t \<longrightarrow> sessions_get (fst (on_timeout st h)) k = sessions_get st k)
             \<and> snd (on_timeout st h) =
                 (if truthy (clientId s) \<and> live st (key_of (clientId s))
                  then [(key_of (clientId s), HostDisconnected)] else []))
          \<and> (t_slot t = ClientSlot \<and> clientId s = Some (t_cid t) \<longrightarrow>
               sessions_get (fst (on_timeout st h)) (t_code t) =
                 Some (s\<lparr>clientId := None, controlEnabled := False\<rparr>)
             \<and> (\<forall>k. k \<noteq> t_code t \<longrightarrow> sessions_get (fst (on_timeout st h)) k = sessions_get st k)
             \<and> snd (on_timeout st h) =
                 (if live st (hostId s) then [(hostId s, ClientDisconnected)] else [])))
       \<and> clients (fst (on_timeout st h)) = clients st
       \<and> timers (fst (on_timeout st h)) = (timers st)(h := None)"
proof -
  let ?st = "st\<lparr>timers := (timers st)(h := None)\<rparr>"
  have run: "on_timeout st h = callback t ?st"
    using assms by (simp add: on_timeout_def)
  have get: "sessions_get ?st = sessions_get st"
    by (simp add: sessions_get_def fun_eq_iff)
  have lv: "live ?st = live st"
    by (simp add: live_def fun_eq_iff)
  have absent: "sessions_get st (t_code t) = None \<longrightarrow> on_timeout st h = (?st, [])"
    by (simp add: run callback_absent get)
  have cl: "clients (fst (on_timeout st h)) = clients st"
    "timers (fst (on_timeout st h)) = (timers st)(h := None)"
    unfolding run by (auto simp: callback_def split: option.splits slot.splits)
  have found: "\<forall>s. sessions_get st (t_code t) = Some s \<longrightarrow>
            (t_slot t = HostSlot \<and> hostId s \<noteq> t_cid t \<longrightarrow> on_timeout st h = (?st, []))
          \<and> (t_slot t = ClientSlot \<and> clientId s \<noteq> Some (t_cid t) \<longrightarrow> on_timeout st h = (?st, []))
          \<and> (t_slot t = HostSlot \<and> hostId s = t_cid t \<longrightarrow>
               sessions_get (fst (on_timeout st h)) (t_code t) = None
             \<and> (\<forall>k. k \<noteq> t_code t \<longrightarrow> sessions_get (fst (on_timeout st h)) k = sessions_get st k)
             \<and> snd (on_timeout st h) =
                 (if truthy (clientId s) \<and> live st (key_of (clientId s))
                  then [(key_of (clientId s), HostDisconnected)] else []))
          \<and> (t_slot t = ClientSlot \<and> clientId s = Some (t_cid t) \<longrightarrow>
               sessions_get (fst (on_timeout st h)) (t_code t) =
                 Some (s\<lparr>clientId := None, controlEnabled := False\<rparr>)
             \<and> (\<forall>k. k \<noteq> t_code t \<longrightarrow> sessions_get (fst (on_timeout st h)) k = sessions_get st k)
             \<and> snd (on_timeout st h) =
                 (if live st (hostId s) then [(hostId s, ClientDisconnected)] else []))"
  proof (intro allI impI)
    fix s
    assume s: "sessions_get st (t_code t) = Some s"
    then have s': "sessions_get ?st (t_code t) = Some s" by (simp add: get)
    have m: "map_of (sessions st) (t_code t) = Some s"
      using s by (simp add: sessions_get_def)
    have a: "t_slot t = HostSlot \<and> hostId s \<noteq> t_cid t \<longrightarrow> on_timeout st h = (?st, [])"
      using callback_stale [OF s'] by (simp add: run)
    have b: "t_slot t = ClientSlot \<and> clientId s \<noteq> Some (t_cid t) \<longrightarrow> on_timeout st h = (?st, [])"
      using callback_stale [OF s'] by (simp add: run)
    have c: "t_slot t = HostSlot \<and> hostId s = t_cid t \<longrightarrow>
               sessions_get (fst (on_timeout st h)) (t_code t) = None
             \<and> (\<forall>k. k \<noteq> t_code t \<longrightarrow> sessions_get (fst (on_timeout st h)) k = sessions_get st k)
             \<and> snd (on_timeout st h) =
                 (if truthy (clientId s) \<and> live st (key_of (clientId s))
                  then [(key_of (clientId s), HostDisconnected)] else [])"
      by (simp add: run callback_host [OF s'] lv sessions_get_def map_of_sessions_delete)
    have d: "t_slot t = ClientSlot \<and> clientId s = Some (t_cid t) \<longrightarrow>
               sessions_get (fst (on_timeout st h)) (t_code t) =
                 Some (s\<lparr>clientId := None, controlEnabled := False\<rparr>)
             \<and> (\<forall>k. k \<noteq> t_code t \<longrightarrow> sessions_get (fst (on_timeout st h)) k = sessions_get st k)
             \<and> snd (on_timeout st h) =
                 (if live st (hostId s) then [(hostId s, ClientDisconnected)] else [])"
      by (simp add: run callback_client [OF s'] lv sessions_get_def map_of_assign_at_code m)
    from a b c d
    show "(t_slot t = HostSlot \<and> hostId s \<noteq> t_cid t \<longrightarrow> on_timeout st h = (?st, []))
          \<and> (t_slot t = ClientSlot \<and> clientId s \<noteq> Some (t_cid t) \<longrightarrow> on_timeout st h = (?st, []))
          \<and> (t_slot t = HostSlot \<and> hostId s = t_cid t \<longrightarrow>
               sessions_get (fst (on_timeout st h)) (t_code t) = None
             \<and> (\<forall>k. k \<noteq> t_code t \<longrightarrow> sessions_get (fst (on_timeout st h)) k = sessions_get st k)
             \<and> snd (on_timeout st h) =
                 (if truthy (clientId s) \<and> live st (key_of (clientId s))
                  then [(key_of (clientId s), HostDisconnected)] else []))
          \<and> (t_slot t = ClientSlot \<and> clientId s = Some (t_cid t) \<longrightarrow>
               sessions_get (fst (on_timeout st h)) (t_code t) =
                 Some (s\<lparr>clientId := None, controlEnabled := False\<rparr>)
             \<and> (\<forall>k. k \<noteq> t_code t \<longrightarrow> sessions_get (fst (on_timeout st h)) k = sessions_get st k)
             \<and> snd (on_timeout st h) =
                 (if live st (hostId s) then [(hostId s, ClientDisconnected)] else []))"
      by blast
  qed
  from absent found cl show ?thesis by blast
qed

text \<open>
  Three runs from the sample state: the client closes and its timer fires; the client
  closes, another connection joins in its place and the stale timer fires without effect;
  the host closes and its timer fires.
\<close>

theorem grace_timer_fires_witness:
  "timers (fst (on_close_grace ex_paired ''c1'')) 0
     = Some \<lparr>t_code = ''482193'', t_slot = ClientSlot, t_cid = ''c1''\<rparr>
   \<and> sessions_get (fst (on_timeout (fst (on_close_grace ex_paired ''c1'')) 0)) ''482193''
     = Some (ex_session\<lparr>clientId := None, controlEnabled := False\<rparr>)
   \<and> snd (on_timeout (fst (on_close_grace ex_paired ''c1'')) 0) = [(''h1'', ClientDisconnected)]
   \<and> sessions_get (fst (on_message_grace (fst (on_close_grace ex_paired ''c1'')) ''x9'' ex_env
        (envelope ''join-session''))) ''482193''
     = Some (ex_session\<lparr>clientId := Some ''x9''\<rparr>)
   \<and> sessions_get (fst (on_timeout (fst (on_message_grace (fst (on_close_grace ex_paired ''c1'')) ''x9'' ex_env
        (envelope ''join-session''))) 0)) ''482193''
     = Some (ex_session\<lparr>clientId := Some ''x9''\<rparr>)
   \<and> snd (on_timeout (fst (on_message_grace (fst (on_close_grace ex_paired ''c1'')) ''x9'' ex_env
        (envelope ''join-session''))) 0) = []
   \<and> timers (fst (on_close_grace ex_paired ''h1'')) 0
     = Some \<lparr>t_code = ''482193'', t_slot = HostSlot, t_cid = ''h1''\<rparr>
   \<and> sessions_get (fst (on_timeout (fst (on_close_grace ex_paired ''h1'')) 0)) ''482193'' = None
   \<and> snd (on_timeout (fst (on_close_grace ex_paired ''h1'')) 0) = [(''c1'', HostDisconnected)]"
proof -
  let ?tc = "\<lparr>t_code = ''482193'', t_slot = ClientSlot, t_cid = ''c1''\<rparr>"
  let ?th = "\<lparr>t_code = ''482193'', t_slot = HostSlot, t_cid = ''h1''\<rparr>"
  let ?c = "fst (on_close_grace ex_paired ''c1'')"
  let ?j = "fst (on_message_grace ?c ''x9'' ex_env (envelope ''join-session''))"
  let ?h = "fst (on_close_grace ex_paired ''h1'')"
  have c: "?c = ex_paired\<lparr>clients := [''h1'', ''x9''], timers := [0 \<mapsto> ?tc],
              disconnectTimers := [''482193'' \<mapsto> 0], nextTimer := 1\<rparr>"
    by (simp add: on_close_grace_def arm_def ex_simps Let_def)
  have h: "?h = ex_paired\<lparr>clients := [''c1'', ''x9''], timers := [0 \<mapsto> ?th],
              disconnectTimers := [''482193'' \<mapsto> 0], nextTimer := 1\<rparr>"
    by (simp add: on_close_grace_def arm_def ex_simps Let_def)
  have j: "sessions ?j = [(''482193'', ex_session\<lparr>clientId := Some ''x9''\<rparr>)]"
    "clients ?j = [''h1'', ''x9'']" "timers ?j 0 = Some ?tc"
    unfolding c
    by (simp_all add: on_message_grace_def join_session_def set_ws_sessionId_def send_def
        at_code_def ex_simps)
  have tc: "timers ?c 0 = Some ?tc" and th: "timers ?h 0 = Some ?th"
    by (simp_all add: c h)
  have gc: "sessions_get ?c (t_code ?tc) = Some ex_session"
    unfolding c by (simp add: sessions_get_def ex_paired_def)
  have gh: "sessions_get ?h (t_code ?th) = Some ex_session"
    unfolding h by (simp add: sessions_get_def ex_paired_def)
  have gj: "sessions_get ?j (t_code ?tc) = Some (ex_session\<lparr>clientId := Some ''x9''\<rparr>)"
    by (simp add: j sessions_get_def)
  have lv: "live ?c ''h1''" "live ?h ''c1''"
    by (simp_all add: c h live_def)
  have lj: "live ?j ''h1''"
    by (simp add: j live_def)
  have stale: "on_timeout ?j 0 = (?j\<lparr>timers := (timers ?j)(0 := None)\<rparr>, [])"
    using grace_timer_fires [OF j(3)] gj by (simp add: ex_session_def)
  have r1: "sessions_get (fst (on_timeout ?c 0)) ''482193''
              = Some (ex_session\<lparr>clientId := None, controlEnabled := False\<rparr>)"
    "snd (on_timeout ?c 0) = [(''h1'', ClientDisconnected)]"
    using grace_timer_fires [OF tc] gc lv by (simp_all add: ex_session_def)
  have r2: "sessions_get (fst (on_timeout ?j 0)) ''482193''
              = Some (ex_session\<lparr>clientId := Some ''x9''\<rparr>)"
    "snd (on_timeout ?j 0) = []"
    using gj by (simp_all add: stale sessions_get_def)
  have r3: "sessions_get (fst (on_timeout ?h 0)) ''482193'' = None"
    "snd (on_timeout ?h 0) = [(''c1'', HostDisconnected)]"
    using grace_timer_fires [OF th] gh lv by (simp_all add: ex_session_def)
  show ?thesis
    using r1 r2 r3 tc th gj grace_timer_fires [OF tc] by simp
qed

subsection \<open>C4: the checks of join-session\<close>

text \<open>The outcomes of the handler in the listings.\<close>

lemma join_session_invalid:
  "sessions_get st (sessionCode data) = None \<Longrightarrow>
   join_session st cid data = (st, [(cid, Error ''invalid-session-code'')])"
  by (simp add: join_session_def send_def)

lemma join_session_host_gone:
  "sessions_get st (sessionCode data) = Some session \<Longrightarrow> \<not> live st (hostId session) \<Longrightarrow>
   join_session st cid data =
     (st\<lparr>sessions := sessions_delete (sessionCode data) (sessions st)\<rparr>,
      [(cid, Error ''host-not-available'')])"
  by (simp add: join_session_def send_def)

lemma join_session_occupied:
  "sessions_get st (sessionCode data) = Some session \<Longrightarrow> live st (hostId session) \<Longrightarrow>
   truthy (clientId session) \<and> live st (key_of (clientId session)) \<Longrightarrow>
   join_session st cid data = (st, [(cid, Error ''session-already-has-client'')])"
  by (simp add: join_session_def send_def)

lemma join_session_success:
  assumes "sessions_get st (sessionCode data) = Some session" and "live st (hostId session)"
    and "\<not> (truthy (clientId session) \<and> live st (key_of (clientId session)))"
  shows "snd (join_session st cid data) =
           [(cid, SessionJoined (id_s session) (sessionCode data)), (hostId session, ClientJoined cid)]"
    and "sessions_get (fst (join_session st cid data)) (sessionCode data) =
           Some (session\<lparr>clientId := Some cid\<rparr>)"
    and "\<forall>k. k \<noteq> sessionCode data \<longrightarrow>
           sessions_get (fst (join_session st cid data)) k = sessions_get st k"
    and "ws_sessionId (sockets (fst (join_session st cid data)) cid) = Some (id_s session)"
    and "clients (fst (join_session st cid data)) = clients st"
  using assms
  by (auto simp: join_session_def send_def set_ws_sessionId_def sessions_get_def
      map_of_assign_at_code)

lemma join_session_hb_invalid:
  "sessions_get st (sessionCode data) = None \<Longrightarrow>
   join_session_hb st cid data = (st, [(cid, Error ''invalid-session-code'')])"
  by (simp add: join_session_hb_def send_def)

lemma join_session_hb_empty:
  "sessionCode data = [] \<Longrightarrow>
   join_session_hb st cid data = (st, [(cid, Error ''invalid-session-code'')])"
  by (simp add: join_session_hb_def send_def)

lemma join_session_hb_host_gone:
  "sessionCode data \<noteq> [] \<Longrightarrow> sessions_get st (sessionCode data) = Some session \<Longrightarrow>
   \<not> live st (hostId session) \<Longrightarrow>
   join_session_hb st cid data = (st, [(cid, Error ''host-not-available'')])"
  by (simp add: join_session_hb_def send_def)

lemma join_session_hb_occupied:
  "sessionCode data \<noteq> [] \<Longrightarrow> sessions_get st (sessionCode data) = Some session \<Longrightarrow>
   live st (hostId session) \<Longrightarrow>
   truthy (clientId session) \<and> live st (key_of (clientId session)) \<Longrightarrow>
   join_session_hb st cid data = (st, [(cid, Error ''session-already-has-client'')])"
  by (simp add: join_session_hb_def send_def)

lemma join_session_hb_success:
  assumes "sessionCode data \<noteq> []"
    and "sessions_get st (sessionCode data) = Some session" and "live st (hostId session)"
    and "\<not> (truthy (clientId session) \<and> live st (key_of (clientId session)))"
  shows "snd (join_session_hb st cid data) =
           [(cid, SessionJoined (id_s session) (sessionCode data)), (hostId session, ClientJoined cid)]"
    and "sessions_get (fst (join_session_hb st cid data)) (sessionCode data) =
           Some (session\<lparr>clientId := Some cid\<rparr>)"
    and "\<forall>k. k \<noteq> sessionCode data \<longrightarrow>
           sessions_get (fst (join_session_hb st cid data)) k = sessions_get st k"
    and "ws_sessionId (sockets (fst (join_session_hb st cid data)) cid) = Some (id_s session)"
    and "ws_role (sockets (fst (join_session_hb st cid data)) cid) = Some ''client''"
    and "clients (fst (join_session_hb st cid data)) = clients st"
  using assms
  by (auto simp: join_session_hb_def send_def set_ws_sessionId_def set_ws_role_def
      sessions_get_def map_of_assign_at_code)

text \<open>
  Claim C4, as amended. \<^verbatim>\<open>join-session\<close> applies its checks in this order, for a session
  code that is a decimal numeral (for the first check, also when it is empty). No session
  under the code: \<^verbatim>\<open>invalid-session-code\<close>, state unchanged, in all four listings. Host
  not in the registry: \<^verbatim>\<open>host-not-available\<close>; the grace, restore and mvp listings then
  remove the session from the store, the hb listing leaves the store as it is. A client
  bound and in the registry: \<^verbatim>\<open>session-already-has-client\<close>, state unchanged. Otherwise
  the caller becomes the client, its socket is bound to the session identifier and, in the
  hb listing, to the role \<^verbatim>\<open>client\<close>; it is answered \<^verbatim>\<open>session-joined\<close>, then the host is
  sent \<^verbatim>\<open>client-joined\<close> with the caller's identifier; other sessions and the registry are
  unchanged. A code that is not a decimal numeral can name a property that \<^verbatim>\<open>sessions\<close>
  inherits, for which the lookup is not \<^verbatim>\<open>undefined\<close>; such codes are outside the model.
\<close>

theorem join_session_checks:
  assumes "mtype data = ''join-session''"
  shows "on_message_restore st cid e data = on_message_grace st cid e data
       \<and> ((sessionCode data = [] \<or> decimal_code (sessionCode data))
            \<and> sessions_get st (sessionCode data) = None \<longrightarrow>
            on_message_grace st cid e data = (st, [(cid, Error ''invalid-session-code'')])
          \<and> on_message_mvp st cid e data = (st, [(cid, Error ''invalid-session-code'')])
          \<and> on_message_hb st cid e data = (st, [(cid, Error ''invalid-session-code'')]))
       \<and> (decimal_code (sessionCode data) \<longrightarrow>
            on_message_mvp st cid e data = on_message_grace st cid e data
          \<and> (\<forall>session. sessions_get st (sessionCode data) = Some session \<longrightarrow>
               (\<not> live st (hostId session) \<longrightarrow>
                  on_message_grace st cid e data =
                    (st\<lparr>sessions := sessions_delete (sessionCode data) (sessions st)\<rparr>,
                     [(cid, Error ''host-not-available'')])
                \<and> sessions_get (fst (on_message_grace st cid e data)) (sessionCode data) = None
                \<and> on_message_hb st cid e data = (st, [(cid, Error ''host-not-available'')]))
             \<and> (live st (hostId session) \<and> truthy (clientId session)
                  \<and> live st (key_of (clientId session)) \<longrightarrow>
                  on_message_grace st cid e data =
                    (st, [(cid, Error ''session-already-has-client'')])
                \<and> on_message_hb st cid e data =
                    (st, [(cid, Error ''session-already-has-client'')]))
             \<and> (live st (hostId session)
                  \<and> \<not> (truthy (clientId session) \<and> live st (key_of (clientId session))) \<longrightarrow>
                  snd (on_message_grace st cid e data) =
                    [(cid, SessionJoined (id_s session) (sessionCode data)),
                     (hostId session, ClientJoined cid)]
                \<and> sessions_get (fst (on_message_grace st cid e data)) (sessionCode data) =
                    Some (session\<lparr>clientId := Some cid\<rparr>)
                \<and> (\<forall>k. k \<noteq> sessionCode data \<longrightarrow>
                      sessions_get (fst (on_message_grace st cid e data)) k = sessions_get st k)
                \<and> ws_sessionId (sockets (fst (on_message_grace st cid e data)) cid) =
                    Some (id_s session)
                \<and> clients (fst (on_message_grace st cid e data)) = clients st
                \<and> snd (on_message_hb st cid e data) =
                    [(cid, SessionJoined (id_s session) (sessionCode data)),
                     (hostId session, ClientJoined cid)]
                \<and> sessions_get (fst (on_message_hb st cid e data)) (sessionCode data) =
                    Some (session\<lparr>clientId := Some cid\<rparr>)
                \<and> (\<forall>k. k \<noteq> sessionCode data \<longrightarrow>
                      sessions_get (fst (on_message_hb st cid e data)) k = sessions_get st k)
                \<and> ws_sessionId (sockets (fst (on_message_hb st cid e data)) cid) =
                    Some (id_s session)
                \<and> ws_role (sockets (fst (on_message_hb st cid e data)) cid) = Some ''client''
                \<and> clients (fst (on_message_hb st cid e data)) = clients st)))"
proof -
  have g: "on_message_grace st cid e data = join_session st cid data"
    using assms by (simp add: on_message_grace_def)
  have r: "on_message_restore st cid e data = join_session st cid data"
    using assms by (simp add: on_message_restore_def)
  have m: "on_message_mvp st cid e data = join_session_mvp st cid data"
    using assms by (simp add: on_message_mvp_def)
  have h: "on_message_hb st cid e data = join_session_hb st cid data"
    using assms by (simp add: on_message_hb_def)
  have m_inv: "sessions_get st (sessionCode data) = None \<longrightarrow>
      join_session_mvp st cid data = (st, [(cid, Error ''invalid-session-code'')])"
    by (simp add: join_session_mvp_def send_def)
  have m_dec: "decimal_code (sessionCode data) \<longrightarrow>
      join_session_mvp st cid data = join_session st cid data"
    by (auto simp: join_session_mvp_def join_session_invalid send_def
        dest: decimal_code_nonempty)
  have del: "sessions_get (st\<lparr>sessions := sessions_delete (sessionCode data) (sessions st)\<rparr>)
               (sessionCode data) = None"
    by (simp add: sessions_get_def map_of_sessions_delete)
  have first: "(sessionCode data = [] \<or> decimal_code (sessionCode data))
            \<and> sessions_get st (sessionCode data) = None \<longrightarrow>
            join_session st cid data = (st, [(cid, Error ''invalid-session-code'')])
          \<and> join_session_mvp st cid data = (st, [(cid, Error ''invalid-session-code'')])
          \<and> join_session_hb st cid data = (st, [(cid, Error ''invalid-session-code'')])"
    using m_inv by (simp add: join_session_invalid join_session_hb_invalid)
  have found: "decimal_code (sessionCode data) \<longrightarrow>
      (\<forall>session. sessions_get st (sessionCode data) = Some session \<longrightarrow>
               (\<not> live st (hostId session) \<longrightarrow>
                  join_session st cid data =
                    (st\<lparr>sessions := sessions_delete (sessionCode data) (sessions st)\<rparr>,
                     [(cid, Error ''host-not-available'')])
                \<and> sessions_get (fst (join_session st cid data)) (sessionCode data) = None
                \<and> join_session_hb st cid data = (st, [(cid, Error ''host-not-available'')]))
             \<and> (live st (hostId session) \<and> truthy (clientId session)
                  \<and> live st (key_of (clientId session)) \<longrightarrow>
                  join_session st cid data =
                    (st, [(cid, Error ''session-already-has-client'')])
                \<and> join_session_hb st cid data =
                    (st, [(cid, Error ''session-already-has-client'')]))
             \<and> (live st (hostId session)
                  \<and> \<not> (truthy (clientId session) \<and> live st (key_of (clientId session))) \<longrightarrow>
                  snd (join_session st cid data) =
                    [(cid, SessionJoined (id_s session) (sessionCode data)),
                     (hostId session, ClientJoined cid)]
                \<and> sessions_get (fst (join_session st cid data)) (sessionCode data) =
                    Some (session\<lparr>clientId := Some cid\<rparr>)
                \<and> (\<forall>k. k \<noteq> sessionCode data \<longrightarrow>
                      sessions_get (fst (join_session st cid data)) k = sessions_get st k)
                \<and> ws_sessionId (sockets (fst (join_session st cid data)) cid) =
                    Some (id_s session)
                \<and> clients (fst (join_session st cid data)) = clients st
                \<and> snd (join_session_hb st cid data) =
                    [(cid, SessionJoined (id_s session) (sessionCode data)),
                     (hostId session, ClientJoined cid)]
                \<and> sessions_get (fst (join_session_hb st cid data)) (sessionCode data) =
                    Some (session\<lparr>clientId := Some cid\<rparr>)
                \<and> (\<forall>k. k \<noteq> sessionCode data \<longrightarrow>
                      sessions_get (fst (join_session_hb st cid data)) k = sessions_get st k)
                \<and> ws_sessionId (sockets (fst (join_session_hb st cid data)) cid) =
                    Some (id_s session)
                \<and> ws_role (sockets (fst (join_session_hb st cid data)) cid) = Some ''client''
                \<and> clients (fst (join_session_hb st cid data)) = clients st))"
  proof (intro impI allI)
    fix session
    assume dc: "decimal_code (sessionCode data)"
      and s: "sessions_get st (sessionCode data) = Some session"
    from dc have ne: "sessionCode data \<noteq> []" by (rule decimal_code_nonempty)
    show "(\<not> live st (hostId session) \<longrightarrow>
                  join_session st cid data =
                    (st\<lparr>sessions := sessions_delete (sessionCode data) (sessions st)\<rparr>,
                     [(cid, Error ''host-not-available'')])
                \<and> sessions_get (fst (join_session st cid data)) (sessionCode data) = None
                \<and> join_session_hb st cid data = (st, [(cid, Error ''host-not-available'')]))
             \<and> (live st (hostId session) \<and> truthy (clientId session)
                  \<and> live st (key_of (clientId session)) \<longrightarrow>
                  join_session st cid data =
                    (st, [(cid, Error ''session-already-has-client'')])
                \<and> join_session_hb st cid data =
                    (st, [(cid, Error ''session-already-has-client'')]))
             \<and> (live st (hostId session)
                  \<and> \<not> (truthy (clientId session) \<and> live st (key_of (clientId session))) \<longrightarrow>
                  snd (join_session st cid data) =
                    [(cid, SessionJoined (id_s session) (sessionCode data)),
                     (hostId session, ClientJoined cid)]
                \<and> sessions_get (fst (join_session st cid data)) (sessionCode data) =
                    Some (session\<lparr>clientId := Some cid\<rparr>)
                \<and> (\<forall>k. k \<noteq> sessionCode data \<longrightarrow>
                      sessions_get (fst (join_session st cid data)) k = sessions_get st k)
                \<and> ws_sessionId (sockets (fst (join_session st cid data)) cid) =
                    Some (id_s session)
                \<and> clients (fst (join_session st cid data)) = clients st
                \<and> snd (join_session_hb st cid data) =
                    [(cid, SessionJoined (id_s session) (sessionCode data)),
                     (hostId session, ClientJoined cid)]
                \<and> sessions_get (fst (join_session_hb st cid data)) (sessionCode data) =
                    Some (session\<lparr>clientId := Some cid\<rparr>)
                \<and> (\<forall>k. k \<noteq> sessionCode data \<longrightarrow>
                      sessions_get (fst (join_session_hb st cid data)) k = sessions_get st k)
                \<and> ws_sessionId (sockets (fst (join_session_hb st cid data)) cid) =
                    Some (id_s session)
                \<and> ws_role (sockets (fst (join_session_hb st cid data)) cid) = Some ''client''
                \<and> clients (fst (join_session_hb st cid data)) = clients st)"
      using del
      by (simp add: join_session_host_gone [OF s] join_session_occupied [OF s]
          join_session_success [OF s] join_session_hb_host_gone [OF ne s]
          join_session_hb_occupied [OF ne s] join_session_hb_success [OF ne s])
  qed
  from first m_dec found show ?thesis
    unfolding g r m h by blast
qed

theorem join_session_checks_witness:
  "on_message_grace ex_paired ''x9'' ex_env ((envelope ''join-session'')\<lparr>sessionCode := ''100000''\<rparr>)
     = (ex_paired, [(''x9'', Error ''invalid-session-code'')])
   \<and> on_message_mvp ex_paired ''x9'' ex_env ((envelope ''join-session'')\<lparr>sessionCode := []\<rparr>)
     = (ex_paired, [(''x9'', Error ''invalid-session-code'')])
   \<and> on_message_grace (ex_paired\<lparr>clients := [''c1'', ''x9'']\<rparr>) ''x9'' ex_env (envelope ''join-session'')
     = (ex_paired\<lparr>clients := [''c1'', ''x9''], sessions := []\<rparr>, [(''x9'', Error ''host-not-available'')])
   \<and> on_message_hb (ex_paired\<lparr>clients := [''c1'', ''x9'']\<rparr>) ''x9'' ex_env (envelope ''join-session'')
     = (ex_paired\<lparr>clients := [''c1'', ''x9'']\<rparr>, [(''x9'', Error ''host-not-available'')])
   \<and> on_message_grace ex_paired ''x9'' ex_env (envelope ''join-session'')
     = (ex_paired, [(''x9'', Error ''session-already-has-client'')])
   \<and> snd (on_message_grace (ex_paired\<lparr>clients := [''h1'', ''x9'']\<rparr>) ''x9'' ex_env (envelope ''join-session''))
     = [(''x9'', SessionJoined ''s-1'' ''482193''), (''h1'', ClientJoined ''x9'')]
   \<and> sessions_get (fst (on_message_grace (ex_paired\<lparr>clients := [''h1'', ''x9'']\<rparr>) ''x9'' ex_env
          (envelope ''join-session''))) ''482193''
     = Some (ex_session\<lparr>clientId := Some ''x9''\<rparr>)
   \<and> ws_sessionId (sockets (fst (on_message_grace (ex_paired\<lparr>clients := [''h1'', ''x9'']\<rparr>) ''x9'' ex_env
          (envelope ''join-session''))) ''x9'')
     = Some ''s-1''
   \<and> sessions_get (fst (on_message_hb (ex_paired\<lparr>clients := [''h1'', ''x9'']\<rparr>) ''x9'' ex_env
          (envelope ''join-session''))) ''482193''
     = Some (ex_session\<lparr>clientId := Some ''x9''\<rparr>)
   \<and> ws_role (sockets (fst (on_message_hb (ex_paired\<lparr>clients := [''h1'', ''x9'']\<rparr>) ''x9'' ex_env
          (envelope ''join-session''))) ''x9'')
     = Some ''client''"
proof -
  define j where "j = envelope ''join-session''"
  define j0 where "j0 = (envelope ''join-session'')\<lparr>sessionCode := ''100000''\<rparr>"
  define je where "je = (envelope ''join-session'')\<lparr>sessionCode := []\<rparr>"
  define no_host where "no_host = ex_paired\<lparr>clients := [''c1'', ''x9'']\<rparr>"
  define no_client where "no_client = ex_paired\<lparr>clients := [''h1'', ''x9'']\<rparr>"
  have h: "mtype j = ''join-session''" "mtype j0 = ''join-session''" "mtype je = ''join-session''"
    by (simp_all add: j_def j0_def je_def envelope_def)
  have c: "sessionCode j = ''482193''" "sessionCode j0 = ''100000''" "sessionCode je = []"
    by (simp_all add: j_def j0_def je_def envelope_def)
  have a: "sessions_get ex_paired ''100000'' = None" "sessions_get ex_paired [] = None"
    "sessions_get no_host ''482193'' = Some ex_session"
    "sessions_get ex_paired ''482193'' = Some ex_session"
    "sessions_get no_client ''482193'' = Some ex_session"
    by (simp_all add: no_host_def no_client_def ex_simps)
  have l: "\<not> live no_host (hostId ex_session)"
    "live ex_paired (hostId ex_session)"
    "truthy (clientId ex_session)" "live ex_paired (key_of (clientId ex_session))"
    "live no_client (hostId ex_session)"
    "\<not> live no_client (key_of (clientId ex_session))"
    by (simp_all add: no_host_def no_client_def ex_simps)
  have d: "no_host\<lparr>sessions := sessions_delete ''482193'' (sessions no_host)\<rparr>
             = ex_paired\<lparr>clients := [''c1'', ''x9''], sessions := []\<rparr>"
    by (simp add: no_host_def ex_paired_def sessions_delete_def)
  have f: "id_s ex_session = ''s-1''" "hostId ex_session = ''h1''"
    by (simp_all add: ex_session_def)
  have "on_message_grace ex_paired ''x9'' ex_env j0 = (ex_paired, [(''x9'', Error ''invalid-session-code'')])
   \<and> on_message_mvp ex_paired ''x9'' ex_env je = (ex_paired, [(''x9'', Error ''invalid-session-code'')])
   \<and> on_message_grace no_host ''x9'' ex_env j
     = (ex_paired\<lparr>clients := [''c1'', ''x9''], sessions := []\<rparr>, [(''x9'', Error ''host-not-available'')])
   \<and> on_message_hb no_host ''x9'' ex_env j = (no_host, [(''x9'', Error ''host-not-available'')])
   \<and> on_message_grace ex_paired ''x9'' ex_env j
     = (ex_paired, [(''x9'', Error ''session-already-has-client'')])
   \<and> snd (on_message_grace no_client ''x9'' ex_env j)
     = [(''x9'', SessionJoined ''s-1'' ''482193''), (''h1'', ClientJoined ''x9'')]
   \<and> sessions_get (fst (on_message_grace no_client ''x9'' ex_env j)) ''482193''
     = Some (ex_session\<lparr>clientId := Some ''x9''\<rparr>)
   \<and> ws_sessionId (sockets (fst (on_message_grace no_client ''x9'' ex_env j)) ''x9'') = Some ''s-1''
   \<and> sessions_get (fst (on_message_hb no_client ''x9'' ex_env j)) ''482193''
     = Some (ex_session\<lparr>clientId := Some ''x9''\<rparr>)
   \<and> ws_role (sockets (fst (on_message_hb no_client ''x9'' ex_env j)) ''x9'') = Some ''client''"
    using join_session_checks [OF h(2), of ex_paired "''x9''" ex_env]
      join_session_checks [OF h(3), of ex_paired "''x9''" ex_env]
      join_session_checks [OF h(1), of no_host "''x9''" ex_env]
      join_session_checks [OF h(1), of ex_paired "''x9''" ex_env]
      join_session_checks [OF h(1), of no_client "''x9''" ex_env]
      c a l d f decimal_code_482193 decimal_code_100000
    by simp
  then show ?thesis
    unfolding j_def j0_def je_def no_host_def no_client_def .
qed

text \<open>
  The claim as first stated fails in the hb listing (server.js 246-249): with the host
  absent the joiner is refused and the orphaned session stays in the store.
\<close>

theorem join_session_hb_keeps_orphan_counterexample:
  "sessions_get (ex_paired\<lparr>clients := [''c1'', ''x9'']\<rparr>) ''482193'' = Some ex_session
   \<and> \<not> live (ex_paired\<lparr>clients := [''c1'', ''x9'']\<rparr>) (hostId ex_session)
   \<and> on_message_hb (ex_paired\<lparr>clients := [''c1'', ''x9'']\<rparr>) ''x9'' ex_env (envelope ''join-session'')
       = (ex_paired\<lparr>clients := [''c1'', ''x9'']\<rparr>, [(''x9'', Error ''host-not-available'')])
   \<and> sessions_get (fst (on_message_hb (ex_paired\<lparr>clients := [''c1'', ''x9'']\<rparr>) ''x9'' ex_env
         (envelope ''join-session''))) ''482193'' = Some ex_session"
  by (simp add: ex_simps on_message_hb_def join_session_hb_def send_def)

subsection \<open>C5: messages that fail a precondition\<close>

text \<open>One lemma for each way a message can fail, over the four listings.\<close>

lemma fails_unknown_type_grace:
  "mtype data \<notin> set [''create-session'', ''join-session'', ''offer'', ''answer'',
             ''ice-candidate'', ''toggle-control'', ''control-event''] \<longrightarrow>
            on_message_grace st cid e data = (st, [(cid, Error ''unknown-type'')])
          \<and> on_message_mvp st cid e data = (st, [(cid, Error ''unknown-type'')])"
  by (simp add: handler_defs)

lemma fails_unknown_type_restore:
  "mtype data \<notin> set [''restore-session'', ''create-session'', ''join-session'', ''offer'',
             ''answer'', ''ice-candidate'', ''toggle-control'', ''control-event''] \<longrightarrow>
            on_message_restore st cid e data = (st, [(cid, Error ''unknown-type'')])"
  by (simp add: handler_defs)

lemma fails_unknown_type_hb:
  "mtype data \<notin> set [''reconnect-session'', ''create-session'', ''join-session'', ''offer'',
             ''answer'', ''ice-candidate'', ''toggle-control''] \<longrightarrow>
            on_message_hb st cid e data = (st, [])"
  by (simp add: handler_defs)

lemma fails_join_unknown_code:
  "mtype data = ''join-session''
          \<and> (sessionCode data = [] \<or> decimal_code (sessionCode data))
          \<and> sessions_get st (sessionCode data) = None \<longrightarrow>
            on_message_grace st cid e data = (st, [(cid, Error ''invalid-session-code'')])
          \<and> on_message_restore st cid e data = (st, [(cid, Error ''invalid-session-code'')])
          \<and> on_message_mvp st cid e data = (st, [(cid, Error ''invalid-session-code'')])
          \<and> on_message_hb st cid e data = (st, [(cid, Error ''invalid-session-code'')])"
  by (simp add: handler_defs join_session_def join_session_mvp_def join_session_hb_def)

lemma fails_join_slot_occupied:
  "mtype data = ''join-session'' \<and> decimal_code (sessionCode data)
          \<and> (\<exists>s. sessions_get st (sessionCode data) = Some s \<and> live st (hostId s)
                 \<and> truthy (clientId s) \<and> live st (key_of (clientId s))) \<longrightarrow>
            on_message_grace st cid e data = (st, [(cid, Error ''session-already-has-client'')])
          \<and> on_message_restore st cid e data = (st, [(cid, Error ''session-already-has-client'')])
          \<and> on_message_mvp st cid e data = (st, [(cid, Error ''session-already-has-client'')])
          \<and> on_message_hb st cid e data = (st, [(cid, Error ''session-already-has-client'')])"
  by (auto simp: handler_defs join_session_def join_session_mvp_def join_session_hb_def
      dest: decimal_code_nonempty)

lemma fails_relay_unknown_session:
  "is_signal (mtype data) \<and> find_session st (sessionId data) = None \<longrightarrow>
            on_message_grace st cid e data = (st, [(cid, Error ''unknown-session'')])
          \<and> on_message_restore st cid e data = (st, [(cid, Error ''unknown-session'')])
          \<and> on_message_hb st cid e data = (st, [(cid, Error ''unknown-session'')])
          \<and> (sessionId data \<noteq> [] \<longrightarrow>
                on_message_mvp st cid e data = (st, [(cid, Error ''unknown-session'')]))
          \<and> (sessionId data = [] \<longrightarrow>
                on_message_mvp st cid e data = (st, [(cid, Error ''missing-sessionId'')]))"
  by (auto simp: handler_defs relay_def relay_mvp_def relay_hb_def)

lemma fails_toggle_unknown_session:
  "mtype data = ''toggle-control'' \<and> find_session st (sessionId data) = None \<longrightarrow>
            on_message_grace st cid e data = (st, [(cid, Error ''unknown-session'')])
          \<and> on_message_restore st cid e data = (st, [(cid, Error ''unknown-session'')])
          \<and> on_message_mvp st cid e data = (st, [(cid, Error ''unknown-session'')])
          \<and> on_message_hb st cid e data = (st, [])"
  by (simp add: handler_defs toggle_control_def toggle_control_hb_def)

lemma fails_toggle_not_host:
  "mtype data = ''toggle-control''
          \<and> (\<exists>code s. find_session st (sessionId data) = Some (code, s) \<and> hostId s \<noteq> cid) \<longrightarrow>
            on_message_grace st cid e data = (st, [(cid, Error ''not-host'')])
          \<and> on_message_restore st cid e data = (st, [(cid, Error ''not-host'')])
          \<and> on_message_mvp st cid e data = (st, [(cid, Error ''not-host'')])
          \<and> on_message_hb st cid e data = (st, [])"
  by (auto simp: handler_defs toggle_control_def toggle_control_hb_def)

lemma fails_control_disabled:
  "mtype data = ''control-event''
          \<and> (\<exists>code s. find_session st (sessionId data) = Some (code, s) \<and> \<not> controlEnabled s) \<longrightarrow>
            on_message_grace st cid e data = (st, [(cid, Error ''control-not-enabled'')])
          \<and> on_message_restore st cid e data = (st, [(cid, Error ''control-not-enabled'')])
          \<and> on_message_mvp st cid e data = (st, [(cid, Error ''control-not-enabled'')])"
  by (auto simp: handler_defs control_event_def control_event_mvp_def)

lemma fails_control_unknown_session:
  "mtype data = ''control-event'' \<and> find_session st (sessionId data) = None \<longrightarrow>
            on_message_grace st cid e data = (st, [(cid, Error ''control-not-enabled'')])
          \<and> on_message_restore st cid e data = (st, [(cid, Error ''control-not-enabled'')])
          \<and> on_message_mvp st cid e data = (st, [(cid, Error ''unknown-session'')])"
  by (simp add: handler_defs control_event_def control_event_mvp_def)

lemma fails_restore_unknown_code:
  "mtype data = ''restore-session''
          \<and> (sessionCode data = [] \<or> decimal_code (sessionCode data))
          \<and> sessions_get st (sessionCode data) = None \<longrightarrow>
            on_message_restore st cid e data = (st, [(cid, Error ''no-session-to-restore'')])"
  by (simp add: handler_defs restore_session_def)

lemma fails_reconnect_unknown_code:
  "mtype data = ''reconnect-session''
          \<and> (sessionCode data = [] \<or> decimal_code (sessionCode data))
          \<and> sessions_get st (sessionCode data) = None \<longrightarrow>
            on_message_hb st cid e data = (st, [])"
  by (simp add: handler_defs reconnect_session_hb_def)

text \<open>
  Claim C5, as amended. For a message that fails with an unknown type, an unknown code or
  session, a wrong role, disabled control or an occupied slot, the grace, restore and mvp
  listings send exactly one \<^verbatim>\<open>error\<close> reply, to the sender, and return the state they
  were given: store, registry, sessions and everything else are as before. The reply
  names the failed precondition (\<^verbatim>\<open>unknown-type\<close>, \<^verbatim>\<open>invalid-session-code\<close>,
  \<^verbatim>\<open>unknown-session\<close>, \<^verbatim>\<open>no-session-to-restore\<close>, \<^verbatim>\<open>not-host\<close>, \<^verbatim>\<open>control-not-enabled\<close>,
  \<^verbatim>\<open>session-already-has-client\<close>; in mvp \<^verbatim>\<open>missing-sessionId\<close> for a relay without a
  session identifier), with one exception: a \<^verbatim>\<open>control-event\<close> for an unknown session is
  answered \<^verbatim>\<open>control-not-enabled\<close> in the grace and restore listings
  (\<^verbatim>\<open>unknown-session\<close> in mvp). A type is unknown to a listing when the listing has no
  handler for it. The hb listing answers a failed \<^verbatim>\<open>join-session\<close> or relay in the same
  way, but sends nothing at all when a \<^verbatim>\<open>toggle-control\<close> fails, when a
  \<^verbatim>\<open>reconnect-session\<close> names an unknown code or when the type is unknown to it; its
  state is unchanged as well. Session codes taken from the message are decimal numerals
  or empty; other codes are outside the model. A \<^verbatim>\<open>restore-session\<close> that names a stored
  session and is refused is left out of this statement.
\<close>

theorem precondition_failures:
  "(mtype data \<notin> set [''create-session'', ''join-session'', ''offer'', ''answer'',
             ''ice-candidate'', ''toggle-control'', ''control-event''] \<longrightarrow>
            on_message_grace st cid e data = (st, [(cid, Error ''unknown-type'')])
          \<and> on_message_mvp st cid e data = (st, [(cid, Error ''unknown-type'')]))
     \<and> (mtype data \<notin> set [''restore-session'', ''create-session'', ''join-session'', ''offer'',
             ''answer'', ''ice-candidate'', ''toggle-control'', ''control-event''] \<longrightarrow>
            on_message_restore st cid e data = (st, [(cid, Error ''unknown-type'')]))
     \<and> (mtype data \<notin> set [''reconnect-session'', ''create-session'', ''join-session'', ''offer'',
             ''answer'', ''ice-candidate'', ''toggle-control''] \<longrightarrow>
            on_message_hb st cid e data = (st, []))
     \<and> (mtype data = ''join-session''
          \<and> (sessionCode data = [] \<or> decimal_code (sessionCode data))
          \<and> sessions_get st (sessionCode data) = None \<longrightarrow>
            on_message_grace st cid e data = (st, [(cid, Error ''invalid-session-code'')])
          \<and> on_message_restore st cid e data = (st, [(cid, Error ''invalid-session-code'')])
          \<and> on_message_mvp st cid e data = (st, [(cid, Error ''invalid-session-code'')])
          \<and> on_message_hb st cid e data = (st, [(cid, Error ''invalid-session-code'')]))
     \<and> (mtype data = ''join-session'' \<and> decimal_code (sessionCode data)
          \<and> (\<exists>s. sessions_get st (sessionCode data) = Some s \<and> live st (hostId s)
                 \<and> truthy (clientId s) \<and> live st (key_of (clientId s))) \<longrightarrow>
            on_message_grace st cid e data = (st, [(cid, Error ''session-already-has-client'')])
          \<and> on_message_restore st cid e data = (st, [(cid, Error ''session-already-has-client'')])
          \<and> on_message_mvp st cid e data = (st, [(cid, Error ''session-already-has-client'')])
          \<and> on_message_hb st cid e data = (st, [(cid, Error ''session-already-has-client'')]))
     \<and> (is_signal (mtype data) \<and> find_session st (sessionId data) = None \<longrightarrow>
            on_message_grace st cid e data = (st, [(cid, Error ''unknown-session'')])
          \<and> on_message_restore st cid e data = (st, [(cid, Error ''unknown-session'')])
          \<and> on_message_hb st cid e data = (st, [(cid, Error ''unknown-session'')])
          \<and> (sessionId data \<noteq> [] \<longrightarrow>
                on_message_mvp st cid e data = (st, [(cid, Error ''unknown-session'')]))
          \<and> (sessionId data = [] \<longrightarrow>
                on_message_mvp st cid e data = (st, [(cid, Error ''missing-sessionId'')])))
     \<and> (mtype data = ''toggle-control'' \<and> find_session st (sessionId data) = None \<longrightarrow>
            on_message_grace st cid e data = (st, [(cid, Error ''unknown-session'')])
          \<and> on_message_restore st cid e data = (st, [(cid, Error ''unknown-session'')])
          \<and> on_message_mvp st cid e data = (st, [(cid, Error ''unknown-session'')])
          \<and> on_message_hb st cid e data = (st, []))
     \<and> (mtype data = ''toggle-control''
          \<and> (\<exists>code s. find_session st (sessionId data) = Some (code, s) \<and> hostId s \<noteq> cid) \<longrightarrow>
            on_message_grace st cid e data = (st, [(cid, Error ''not-host'')])
          \<and> on_message_restore st cid e data = (st, [(cid, Error ''not-host'')])
          \<and> on_message_mvp st cid e data = (st, [(cid, Error ''not-host'')])
          \<and> on_message_hb st cid e data = (st, []))
     \<and> (mtype data = ''control-event''
          \<and> (\<exists>code s. find_session st (sessionId data) = Some (code, s) \<and> \<not> controlEnabled s) \<longrightarrow>
            on_message_grace st cid e data = (st, [(cid, Error ''control-not-enabled'')])
          \<and> on_message_restore st cid e data = (st, [(cid, Error ''control-not-enabled'')])
          \<and> on_message_mvp st cid e data = (st, [(cid, Error ''control-not-enabled'')]))
     \<and> (mtype data = ''control-event'' \<and> find_session st (sessionId data) = None \<longrightarrow>
            on_message_grace st cid e data = (st, [(cid, Error ''control-not-enabled'')])
          \<and> on_message_restore st cid e data = (st, [(cid, Error ''control-not-enabled'')])
          \<and> on_message_mvp st cid e data = (st, [(cid, Error ''unknown-session'')]))
     \<and> (mtype data = ''restore-session''
          \<and> (sessionCode data = [] \<or> decimal_code (sessionCode data))
          \<and> sessions_get st (sessionCode data) = None \<longrightarrow>
            on_message_restore st cid e data = (st, [(cid, Error ''no-session-to-restore'')]))
     \<and> (mtype data = ''reconnect-session''
          \<and> (sessionCode data = [] \<or> decimal_code (sessionCode data))
          \<and> sessions_get st (sessionCode data) = None \<longrightarrow>
            on_message_hb st cid e data = (st, []))"
  by (intro conjI)
    (rule fails_unknown_type_grace,
     rule fails_unknown_type_restore,
     rule fails_unknown_type_hb,
     rule fails_join_unknown_code,
     rule fails_join_slot_occupied,
     rule fails_relay_unknown_session,
     rule fails_toggle_unknown_session,
     rule fails_toggle_not_host,
     rule fails_control_disabled,
     rule fails_control_unknown_session,
     rule fails_restore_unknown_code,
     rule fails_reconnect_unknown_code)

theorem precondition_failures_witness:
  "on_message_grace ex_paired ''x9'' ex_env (envelope ''reconnect-session'')
       = (ex_paired, [(''x9'', Error ''unknown-type'')])
   \<and> on_message_restore ex_paired ''x9'' ex_env (envelope ''ping'')
       = (ex_paired, [(''x9'', Error ''unknown-type'')])
   \<and> on_message_hb ex_paired ''x9'' ex_env (envelope ''control-event'') = (ex_paired, [])
   \<and> on_message_mvp ex_paired ''x9'' ex_env ((envelope ''join-session'')\<lparr>sessionCode := ''100000''\<rparr>)
       = (ex_paired, [(''x9'', Error ''invalid-session-code'')])
   \<and> on_message_grace ex_paired ''x9'' ex_env (envelope ''join-session'')
       = (ex_paired, [(''x9'', Error ''session-already-has-client'')])
   \<and> on_message_hb ex_paired ''x9'' ex_env ((envelope ''offer'')\<lparr>sessionId := ''s-0''\<rparr>)
       = (ex_paired, [(''x9'', Error ''unknown-session'')])
   \<and> on_message_mvp ex_paired ''x9'' ex_env ((envelope ''offer'')\<lparr>sessionId := []\<rparr>)
       = (ex_paired, [(''x9'', Error ''missing-sessionId'')])
   \<and> on_message_restore ex_paired ''x9'' ex_env ((envelope ''toggle-control'')\<lparr>sessionId := ''s-0''\<rparr>)
       = (ex_paired, [(''x9'', Error ''unknown-session'')])
   \<and> on_message_grace ex_paired ''c1'' ex_env (envelope ''toggle-control'')
       = (ex_paired, [(''c1'', Error ''not-host'')])
   \<and> on_message_mvp (ex_paired\<lparr>sessions := [(''482193'', ex_session\<lparr>controlEnabled := False\<rparr>)]\<rparr>)
         ''c1'' ex_env (envelope ''control-event'')
       = (ex_paired\<lparr>sessions := [(''482193'', ex_session\<lparr>controlEnabled := False\<rparr>)]\<rparr>,
          [(''c1'', Error ''control-not-enabled'')])
   \<and> on_message_mvp ex_paired ''c1'' ex_env ((envelope ''control-event'')\<lparr>sessionId := ''s-0''\<rparr>)
       = (ex_paired, [(''c1'', Error ''unknown-session'')])
   \<and> on_message_restore ex_paired ''x9'' ex_env ((envelope ''restore-session'')\<lparr>sessionCode := ''100000''\<rparr>)
       = (ex_paired, [(''x9'', Error ''no-session-to-restore'')])
   \<and> on_message_hb ex_paired ''x9'' ex_env ((envelope ''reconnect-session'')\<lparr>sessionCode := ''100000''\<rparr>)
       = (ex_paired, [])"
proof -
  let ?off = "ex_paired\<lparr>sessions := [(''482193'', ex_session\<lparr>controlEnabled := False\<rparr>)]\<rparr>"
  have a: "sessions_get ex_paired ''100000'' = None"
    "sessions_get ex_paired ''482193'' = Some ex_session"
    "find_session ex_paired ''s-0'' = None"
    "find_session ex_paired [] = None"
    "find_session ex_paired ''s-1'' = Some (''482193'', ex_session)"
    "find_session ?off ''s-1'' = Some (''482193'', ex_session\<lparr>controlEnabled := False\<rparr>)"
    by (simp_all add: ex_simps)
  have b: "live ex_paired (hostId ex_session)" "truthy (clientId ex_session)"
    "live ex_paired (key_of (clientId ex_session))" "hostId ex_session \<noteq> ''c1''"
    by (simp_all add: ex_simps)
  show ?thesis
    using precondition_failures [of "envelope ''reconnect-session''" ex_paired "''x9''" ex_env]
      precondition_failures [of "envelope ''ping''" ex_paired "''x9''" ex_env]
      precondition_failures [of "envelope ''control-event''" ex_paired "''x9''" ex_env]
      precondition_failures [of "(envelope ''join-session'')\<lparr>sessionCode := ''100000''\<rparr>" ex_paired "''x9''" ex_env]
      precondition_failures [of "envelope ''join-session''" ex_paired "''x9''" ex_env]
      precondition_failures [of "(envelope ''offer'')\<lparr>sessionId := ''s-0''\<rparr>" ex_paired "''x9''" ex_env]
      precondition_failures [of "(envelope ''offer'')\<lparr>sessionId := []\<rparr>" ex_paired "''x9''" ex_env]
      precondition_failures [of "(envelope ''toggle-control'')\<lparr>sessionId := ''s-0''\<rparr>" ex_paired "''x9''" ex_env]
      precondition_failures [of "envelope ''toggle-control''" ex_paired "''c1''" ex_env]
      precondition_failures [of "envelope ''control-event''" ?off "''c1''" ex_env]
      precondition_failures [of "(envelope ''control-event'')\<lparr>sessionId := ''s-0''\<rparr>" ex_paired "''c1''" ex_env]
      precondition_failures [of "(envelope ''restore-session'')\<lparr>sessionCode := ''100000''\<rparr>" ex_paired "''x9''" ex_env]
      precondition_failures [of "(envelope ''reconnect-session'')\<lparr>sessionCode := ''100000''\<rparr>" ex_paired "''x9''" ex_env]
      a b decimal_code_482193 decimal_code_100000
    by (simp add: envelope_def is_signal_def)
qed

text \<open>
  The claim as first stated fails twice. In the hb listing a connection that is not the
  host sends \<^verbatim>\<open>toggle-control\<close> and gets no reply at all (server.js 322-330). In the grace
  listing a \<^verbatim>\<open>control-event\<close> for a session identifier that resolves to nothing is
  answered with \<^verbatim>\<open>control-not-enabled\<close>, the code of another precondition (server.js 92).
\<close>

theorem precondition_failure_reply_counterexample:
  "find_session ex_paired ''s-1'' = Some (''482193'', ex_session) \<and> hostId ex_session \<noteq> ''x9''
   \<and> on_message_hb ex_paired ''x9'' ex_env (envelope ''toggle-control'') = (ex_paired, [])
   \<and> find_session ex_paired ''s-0'' = None
   \<and> on_message_grace ex_paired ''h1'' ex_env ((envelope ''control-event'')\<lparr>sessionId := ''s-0''\<rparr>)
       = (ex_paired, [(''h1'', Error ''control-not-enabled'')])"
  by (simp add: ex_simps handler_defs toggle_control_hb_def control_event_def)

text \<open>
  A refused \<^verbatim>\<open>restore-session\<close> in the restore listing: \<^verbatim>\<open>clearTimeout\<close> runs before the
  role is tested (part_000 42), so a request that is refused has already cancelled the
  pending timer of the code. Here the client \<open>c1\<close> has closed and its timer is pending;
  \<open>x9\<close> asks for the host role while the host is connected, is refused, and the timer
  is gone.
\<close>

lemma restore_session_refused_clears_timer:
  "timers (fst (on_close_grace ex_paired ''c1'')) 0
     = Some \<lparr>t_code = ''482193'', t_slot = ClientSlot, t_cid = ''c1''\<rparr>
   \<and> live (fst (on_close_grace ex_paired ''c1'')) ''h1''
   \<and> snd (on_message_restore (fst (on_close_grace ex_paired ''c1'')) ''x9'' ex_env
         (envelope ''restore-session''))
     = [(''x9'', Error ''no-session-to-restore'')]
   \<and> sessions (fst (on_message_restore (fst (on_close_grace ex_paired ''c1'')) ''x9'' ex_env
         (envelope ''restore-session'')))
     = sessions ex_paired
   \<and> timers (fst (on_message_restore (fst (on_close_grace ex_paired ''c1'')) ''x9'' ex_env
         (envelope ''restore-session''))) 0
     = None"
proof -
  have c: "fst (on_close_grace ex_paired ''c1'') =
      ex_paired\<lparr>clients := [''h1'', ''x9''],
        timers := [0 \<mapsto> \<lparr>t_code = ''482193'', t_slot = ClientSlot, t_cid = ''c1''\<rparr>],
        disconnectTimers := [''482193'' \<mapsto> 0], nextTimer := 1\<rparr>"
    by (simp add: on_close_grace_def arm_def ex_simps Let_def)
  show ?thesis
    unfolding c
    by (simp add: ex_simps on_message_restore_def restore_session_def clearTimeout_def
        send_def Let_def)
qed

subsection \<open>C6: what create-session returns\<close>

lemma create_session_sessions:
  "sessions (fst (create_session st cid e)) =
     sessions_set (new_code e)
       \<lparr>id_s = fst (uuidv4 st e), hostId = cid, clientId = None, createdAt = now e,
        controlEnabled = False, hostOffline = False, clientOffline = False\<rparr> (sessions st)"
  by (simp add: create_session_def set_ws_sessionId_def Let_def uuidv4_state)

text \<open>
  Claim C6, as amended. Every \<^verbatim>\<open>create-session\<close> succeeds in all four listings and
  answers with the code drawn and the identifier generated. The code is a decimal numeral
  of six digits, the numeral of 100000 plus the number drawn below 900000. Afterwards the
  store holds the new session under that code, with the caller as host, no client and
  control disabled; whatever was stored under the same code before is replaced, since the
  code is not compared with the codes in use; every other code keeps its session, and the
  codes of the store stay pairwise distinct. The session identifier is distinct from
  every identifier issued before in the lifetime of the process: it is not among the
  identifiers the generator has returned so far, it is recorded with them, and it differs
  from the identifier that any earlier \<^verbatim>\<open>create-session\<close> returned, whatever events the
  listing has handled in between. The caller's socket is bound to the identifier (and to
  the role \<^verbatim>\<open>host\<close> in the hb listing) and the registry is unchanged.
\<close>

theorem create_session_effect:
  assumes "mtype data = ''create-session''"
  shows "snd (on_message_grace st cid e data) =
           [(cid, SessionCreated (new_code e) (fst (uuidv4 st e)))]
       \<and> on_message_restore st cid e data = on_message_grace st cid e data
       \<and> on_message_mvp st cid e data = on_message_grace st cid e data
       \<and> on_message_hb st cid e data =
           (set_ws_role cid ''host'' (fst (on_message_grace st cid e data)),
            snd (on_message_grace st cid e data))
       \<and> ws_role (sockets (fst (on_message_hb st cid e data)) cid) = Some ''host''
       \<and> decimal_code (new_code e) \<and> length (new_code e) = 6
       \<and> code_val (new_code e) = 100000 + rnd e mod 900000
       \<and> sessions_get (fst (on_message_grace st cid e data)) (new_code e) =
           Some \<lparr>id_s = fst (uuidv4 st e), hostId = cid, clientId = None, createdAt = now e,
                 controlEnabled = False, hostOffline = False, clientOffline = False\<rparr>
       \<and> (\<forall>k. k \<noteq> new_code e \<longrightarrow>
             sessions_get (fst (on_message_grace st cid e data)) k = sessions_get st k)
       \<and> (distinct (map fst (sessions st)) \<longrightarrow>
             distinct (map fst (sessions (fst (on_message_grace st cid e data)))))
       \<and> fst (uuidv4 st e) \<notin> set (issued st) \<and> fst (uuidv4 st e) \<noteq> []
       \<and> issued (fst (on_message_grace st cid e data)) = fst (uuidv4 st e) # issued st
       \<and> (\<forall>st1 c1 e1 d1 evs. mtype d1 = ''create-session'' \<longrightarrow>
             (st = run step_grace (fst (on_message_grace st1 c1 e1 d1)) evs \<longrightarrow>
                fst (uuidv4 st1 e1) \<noteq> fst (uuidv4 st e))
           \<and> (st = run step_restore (fst (on_message_restore st1 c1 e1 d1)) evs \<longrightarrow>
                fst (uuidv4 st1 e1) \<noteq> fst (uuidv4 st e))
           \<and> (st = run step_mvp (fst (on_message_mvp st1 c1 e1 d1)) evs \<longrightarrow>
                fst (uuidv4 st1 e1) \<noteq> fst (uuidv4 st e))
           \<and> (st = run step_hb (fst (on_message_hb st1 c1 e1 d1)) evs \<longrightarrow>
                fst (uuidv4 st1 e1) \<noteq> fst (uuidv4 st e)))
       \<and> ws_sessionId (sockets (fst (on_message_grace st cid e data)) cid) =
           Some (fst (uuidv4 st e))
       \<and> clients (fst (on_message_grace st cid e data)) = clients st"
proof -
  have g: "on_message_grace st cid e data = create_session st cid e"
    using assms by (simp add: on_message_grace_def)
  have r: "on_message_restore st cid e data = create_session st cid e"
    using assms by (simp add: on_message_restore_def)
  have m: "on_message_mvp st cid e data = create_session st cid e"
    using assms by (simp add: on_message_mvp_def)
  have h: "on_message_hb st cid e data = create_session_hb st cid e"
    using assms by (simp add: on_message_hb_def)
  have other: "\<forall>k. k \<noteq> new_code e \<longrightarrow>
             sessions_get (fst (create_session st cid e)) k = sessions_get st k"
    by (simp add: sessions_get_def create_session_sessions map_of_sessions_set)
  have dist: "distinct (map fst (sessions st)) \<longrightarrow>
             distinct (map fst (sessions (fst (create_session st cid e))))"
    by (simp add: create_session_sessions distinct_sessions_set)
  have new: "sessions_get (fst (create_session st cid e)) (new_code e) =
           Some \<lparr>id_s = fst (uuidv4 st e), hostId = cid, clientId = None, createdAt = now e,
                 controlEnabled = False, hostOffline = False, clientOffline = False\<rparr>"
    by (simp add: sessions_get_def create_session_sessions map_of_sessions_set)
  have rest: "snd (create_session st cid e) = [(cid, SessionCreated (new_code e) (fst (uuidv4 st e)))]"
    "ws_sessionId (sockets (fst (create_session st cid e)) cid) = Some (fst (uuidv4 st e))"
    "clients (fst (create_session st cid e)) = clients st"
    by (simp_all add: create_session_def set_ws_sessionId_def send_def Let_def uuidv4_state)
  have role: "ws_role (sockets (fst (create_session_hb st cid e)) cid) = Some ''host''"
    by (simp add: create_session_hb_def set_ws_role_def Let_def)
  have life: "\<forall>st1 c1 e1 d1 evs. mtype d1 = ''create-session'' \<longrightarrow>
             (st = run step_grace (fst (on_message_grace st1 c1 e1 d1)) evs \<longrightarrow>
                fst (uuidv4 st1 e1) \<noteq> fst (uuidv4 st e))
           \<and> (st = run step_restore (fst (on_message_restore st1 c1 e1 d1)) evs \<longrightarrow>
                fst (uuidv4 st1 e1) \<noteq> fst (uuidv4 st e))
           \<and> (st = run step_mvp (fst (on_message_mvp st1 c1 e1 d1)) evs \<longrightarrow>
                fst (uuidv4 st1 e1) \<noteq> fst (uuidv4 st e))
           \<and> (st = run step_hb (fst (on_message_hb st1 c1 e1 d1)) evs \<longrightarrow>
                fst (uuidv4 st1 e1) \<noteq> fst (uuidv4 st e))"
  proof (intro allI impI conjI)
    fix st1 :: server and c1 :: string and e1 :: env and d1 :: message and evs :: "event list"
    assume d1: "mtype d1 = ''create-session''"
    have ig: "fst (uuidv4 st1 e1) \<in> set (issued (fst (on_message_grace st1 c1 e1 d1)))"
      using d1 by (simp add: on_message_grace_def issued_create_session)
    have ir: "fst (uuidv4 st1 e1) \<in> set (issued (fst (on_message_restore st1 c1 e1 d1)))"
      using d1 by (simp add: on_message_restore_def issued_create_session)
    have im: "fst (uuidv4 st1 e1) \<in> set (issued (fst (on_message_mvp st1 c1 e1 d1)))"
      using d1 by (simp add: on_message_mvp_def issued_create_session)
    have ih: "fst (uuidv4 st1 e1) \<in> set (issued (fst (on_message_hb st1 c1 e1 d1)))"
      using d1 by (simp add: on_message_hb_def issued_create_session_hb)
    {
      assume "st = run step_grace (fst (on_message_grace st1 c1 e1 d1)) evs"
      then show "fst (uuidv4 st1 e1) \<noteq> fst (uuidv4 st e)"
        by (rule uuidv4_after_run [OF issued_step_grace ig])
    }
    {
      assume "st = run step_restore (fst (on_message_restore st1 c1 e1 d1)) evs"
      then show "fst (uuidv4 st1 e1) \<noteq> fst (uuidv4 st e)"
        by (rule uuidv4_after_run [OF issued_step_restore ir])
    }
    {
      assume "st = run step_mvp (fst (on_message_mvp st1 c1 e1 d1)) evs"
      then show "fst (uuidv4 st1 e1) \<noteq> fst (uuidv4 st e)"
        by (rule uuidv4_after_run [OF issued_step_mvp im])
    }
    {
      assume "st = run step_hb (fst (on_message_hb st1 c1 e1 d1)) evs"
      then show "fst (uuidv4 st1 e1) \<noteq> fst (uuidv4 st e)"
        by (rule uuidv4_after_run [OF issued_step_hb ih])
    }
  qed
  show ?thesis
    unfolding g r m h
    using other dist new rest role life new_code_six_digits [of e] uuidv4_fresh [of st e]
    by (simp add: create_session_hb_def Let_def issued_create_session)
qed

theorem create_session_effect_witness:
  "snd (on_message_grace ex_paired ''x9'' (ex_env\<lparr>rnd := 631004\<rparr>) (envelope ''create-session''))
      = [(''x9'', SessionCreated ''731004'' ''s-2'')]
   \<and> sessions_get (fst (on_message_grace ex_paired ''x9'' (ex_env\<lparr>rnd := 631004\<rparr>)
         (envelope ''create-session''))) ''731004''
      = Some \<lparr>id_s = ''s-2'', hostId = ''x9'', clientId = None, createdAt = 7,
              controlEnabled = False, hostOffline = False, clientOffline = False\<rparr>
   \<and> sessions_get (fst (on_message_grace ex_paired ''x9'' (ex_env\<lparr>rnd := 631004\<rparr>)
         (envelope ''create-session''))) ''482193''
      = Some ex_session
   \<and> distinct (map fst (sessions (fst (on_message_grace ex_paired ''x9'' (ex_env\<lparr>rnd := 631004\<rparr>)
         (envelope ''create-session'')))))
   \<and> ws_role (sockets (fst (on_message_hb ex_paired ''x9'' (ex_env\<lparr>rnd := 631004\<rparr>)
         (envelope ''create-session''))) ''x9'') = Some ''host''
   \<and> issued (fst (on_message_grace ex_paired ''x9'' (ex_env\<lparr>rnd := 631004\<rparr>)
         (envelope ''create-session''))) = [''s-2'', ''x9'', ''c1'', ''s-1'', ''h1'']
   \<and> fst (uuidv4 (run step_grace
              (fst (on_message_grace ex_paired ''x9'' (ex_env\<lparr>rnd := 631004\<rparr>)
                 (envelope ''create-session'')))
              [Close ''c1'', Timeout 0]) (ex_env\<lparr>rnd := 631004\<rparr>))
      = ''0000''
   \<and> fst (uuidv4 ex_paired (ex_env\<lparr>rnd := 631004\<rparr>))
      \<noteq> fst (uuidv4 (run step_grace
              (fst (on_message_grace ex_paired ''x9'' (ex_env\<lparr>rnd := 631004\<rparr>)
                 (envelope ''create-session'')))
              [Close ''c1'', Timeout 0]) (ex_env\<lparr>rnd := 631004\<rparr>))"
proof -
  define e where "e = ex_env\<lparr>rnd := 631004\<rparr>"
  define d where "d = envelope ''create-session''"
  define st1 where "st1 = fst (on_message_grace ex_paired ''x9'' e d)"
  define st2 where "st2 = run step_grace st1 [Close ''c1'', Timeout 0]"
  have h: "mtype d = ''create-session''"
    by (simp add: d_def envelope_def)
  have c: "new_code e = ''731004''"
    by (simp add: e_def new_code_def ex_env_def string_of_nat.simps digit_char_def)
  have ue: "uuid e = ''s-2''" and ne: "now e = 7"
    by (simp_all add: e_def ex_env_def)
  have u: "fst (uuidv4 ex_paired e) = ''s-2''"
    by (simp add: uuidv4_def ex_paired_def ue Let_def)
  have ds: "distinct (map fst (sessions ex_paired))"
    by (simp add: ex_paired_def)
  have g: "sessions_get ex_paired ''482193'' = Some ex_session"
    by (simp add: ex_simps)
  have i0: "issued ex_paired = [''x9'', ''c1'', ''s-1'', ''h1'']"
    by (simp add: ex_paired_def)
  have i1: "issued st1 = [''s-2'', ''x9'', ''c1'', ''s-1'', ''h1'']"
    using create_session_effect [OF h, of ex_paired "''x9''" e] u i0
    by (simp add: st1_def)
  have i2: "issued st2 = [''s-2'', ''x9'', ''c1'', ''s-1'', ''h1'']"
    by (simp add: st2_def step_grace_def issued_on_close_grace issued_on_timeout i1)
  have u2: "fst (uuidv4 st2 e) = ''0000''"
    by (simp add: uuidv4_def i2 ue longer_than_all_def Let_def)
  have st2: "st2 = run step_grace (fst (on_message_grace ex_paired ''x9'' e d)) [Close ''c1'', Timeout 0]"
    by (simp only: st2_def st1_def)
  have life: "fst (uuidv4 ex_paired e) \<noteq> fst (uuidv4 st2 e)"
    using create_session_effect [OF h, of st2 "''h1''" e] h st2 by blast
  have "snd (on_message_grace ex_paired ''x9'' e d) = [(''x9'', SessionCreated ''731004'' ''s-2'')]
   \<and> sessions_get (fst (on_message_grace ex_paired ''x9'' e d)) ''731004''
      = Some \<lparr>id_s = ''s-2'', hostId = ''x9'', clientId = None, createdAt = 7,
              controlEnabled = False, hostOffline = False, clientOffline = False\<rparr>
   \<and> sessions_get (fst (on_message_grace ex_paired ''x9'' e d)) ''482193'' = Some ex_session
   \<and> distinct (map fst (sessions (fst (on_message_grace ex_paired ''x9'' e d))))
   \<and> ws_role (sockets (fst (on_message_hb ex_paired ''x9'' e d)) ''x9'') = Some ''host''
   \<and> issued (fst (on_message_grace ex_paired ''x9'' e d)) = [''s-2'', ''x9'', ''c1'', ''s-1'', ''h1'']
   \<and> fst (uuidv4 (run step_grace (fst (on_message_grace ex_paired ''x9'' e d))
              [Close ''c1'', Timeout 0]) e) = ''0000''
   \<and> fst (uuidv4 ex_paired e)
      \<noteq> fst (uuidv4 (run step_grace (fst (on_message_grace ex_paired ''x9'' e d))
              [Close ''c1'', Timeout 0]) e)"
    using create_session_effect [OF h, of ex_paired "''x9''" e] c u ds g i0 ne
      u2 [unfolded st2] life [unfolded st2]
    by (simp add: set_ws_role_def)
  then show ?thesis
    unfolding e_def d_def .
qed

text \<open>
  The claim as first stated fails in its first half: the handler does not compare the
  code it draws with the codes in use. Here a session of host \<open>h1\<close>, who is connected, is
  stored under 482193; a second connection creates a session, the same code is drawn and
  returned, and the first session is gone from the store.
\<close>

theorem create_session_code_collision_counterexample:
  "sessions_get ex_paired ''482193'' = Some ex_session
   \<and> hostId ex_session = ''h1'' \<and> live ex_paired ''h1''
   \<and> on_message_grace ex_paired ''x9'' ex_env (envelope ''create-session'')
      = (ex_paired\<lparr>sessions := [(''482193'', \<lparr>id_s = ''s-2'', hostId = ''x9'', clientId = None,
              createdAt = 7, controlEnabled = False, hostOffline = False, clientOffline = False\<rparr>)],
           sockets := (sockets ex_paired)(''x9'' := sock (Some ''s-2'')),
           issued := ''s-2'' # issued ex_paired\<rparr>,
         [(''x9'', SessionCreated ''482193'' ''s-2'')])"
  by (simp add: ex_simps on_message_grace_def create_session_def set_ws_sessionId_def send_def
      Let_def sessions_set_def new_code_def uuidv4_def string_of_nat.simps digit_char_def)

subsection \<open>C7: routing of offer, answer and ice-candidate\<close>

text \<open>
  Claim C7, as amended. For an \<^verbatim>\<open>offer\<close>, \<^verbatim>\<open>answer\<close> or \<^verbatim>\<open>ice-candidate\<close> carrying a
  session identifier: if no session has it, the sender gets \<^verbatim>\<open>unknown-session\<close>; if the
  target slot (the client slot when the sender is the host, the host otherwise) names a
  connection of the registry, the payload goes to that one connection with the sender's
  identifier as \<^verbatim>\<open>from\<close>; if it does not, the message is dropped, and the sender gets
  \<^verbatim>\<open>peer-not-connected\<close> in the grace, restore and mvp listings but nothing at all in the
  hb listing. The state is never changed. The target differs from the sender unless the
  host also occupies the client slot.
\<close>

theorem relay_routing:
  assumes "is_signal (mtype data)" and "sessionId data \<noteq> []"
  shows "(find_session st (sessionId data) = None \<longrightarrow>
            on_message_grace st cid e data = (st, [(cid, Error ''unknown-session'')])
          \<and> on_message_restore st cid e data = (st, [(cid, Error ''unknown-session'')])
          \<and> on_message_mvp st cid e data = (st, [(cid, Error ''unknown-session'')])
          \<and> on_message_hb st cid e data = (st, [(cid, Error ''unknown-session'')]))
       \<and> (\<forall>code s. find_session st (sessionId data) = Some (code, s) \<longrightarrow>
            (live st (key_of (targetId s cid)) \<longrightarrow>
               on_message_grace st cid e data =
                 (st, [(key_of (targetId s cid), Signal (mtype data) cid (payload data))])
             \<and> on_message_restore st cid e data =
                 (st, [(key_of (targetId s cid), Signal (mtype data) cid (payload data))])
             \<and> on_message_mvp st cid e data =
                 (st, [(key_of (targetId s cid), Signal (mtype data) cid (payload data))])
             \<and> on_message_hb st cid e data =
                 (st, [(key_of (targetId s cid), Signal (mtype data) cid (payload data))]))
          \<and> (\<not> live st (key_of (targetId s cid)) \<longrightarrow>
               on_message_grace st cid e data = (st, [(cid, Error ''peer-not-connected'')])
             \<and> on_message_restore st cid e data = (st, [(cid, Error ''peer-not-connected'')])
             \<and> on_message_mvp st cid e data = (st, [(cid, Error ''peer-not-connected'')])
             \<and> on_message_hb st cid e data = (st, []))
          \<and> (clientId s \<noteq> Some (hostId s) \<longrightarrow> targetId s cid \<noteq> Some cid))"
  using assms
  by (auto simp: handler_defs relay_def relay_mvp_def relay_hb_def targetId_def)

theorem relay_routing_witness:
  "on_message_grace ex_paired ''h1'' ex_env (envelope ''answer'')
     = (ex_paired, [(''c1'', Signal ''answer'' ''h1'' ''sdp'')])
   \<and> on_message_hb ex_paired ''c1'' ex_env (envelope ''answer'')
     = (ex_paired, [(''h1'', Signal ''answer'' ''c1'' ''sdp'')])
   \<and> on_message_mvp ex_paired ''h1'' ex_env ((envelope ''answer'')\<lparr>sessionId := ''s-0''\<rparr>)
     = (ex_paired, [(''h1'', Error ''unknown-session'')])
   \<and> on_message_restore (ex_paired\<lparr>clients := [''h1'', ''x9'']\<rparr>) ''h1'' ex_env (envelope ''answer'')
     = (ex_paired\<lparr>clients := [''h1'', ''x9'']\<rparr>, [(''h1'', Error ''peer-not-connected'')])"
proof -
  have h1: "is_signal (mtype (envelope ''answer''))"
    and h1': "is_signal (mtype ((envelope ''answer'')\<lparr>sessionId := ''s-0''\<rparr>))"
    by (simp_all add: envelope_def is_signal_def)
  have h2: "sessionId (envelope ''answer'') \<noteq> []"
    and h2': "sessionId ((envelope ''answer'')\<lparr>sessionId := ''s-0''\<rparr>) \<noteq> []"
    by (simp_all add: envelope_def)
  have f: "find_session ex_paired (sessionId (envelope ''answer'')) = Some (''482193'', ex_session)"
    and f': "find_session ex_paired (sessionId ((envelope ''answer'')\<lparr>sessionId := ''s-0''\<rparr>)) = None"
    and f'': "find_session (ex_paired\<lparr>clients := [''h1'', ''x9'']\<rparr>) (sessionId (envelope ''answer''))
               = Some (''482193'', ex_session)"
    by (simp_all add: ex_simps)
  have t: "key_of (targetId ex_session ''h1'') = ''c1''" "key_of (targetId ex_session ''c1'') = ''h1''"
    by (simp_all add: targetId_def ex_session_def)
  have l: "live ex_paired ''c1''" "live ex_paired ''h1''" "\<not> live (ex_paired\<lparr>clients := [''h1'', ''x9'']\<rparr>) ''c1''"
    by (simp_all add: ex_simps)
  show ?thesis
    using relay_routing [OF h1 h2, of ex_paired "''h1''" ex_env]
      relay_routing [OF h1 h2, of ex_paired "''c1''" ex_env]
      relay_routing [OF h1' h2', of ex_paired "''h1''" ex_env]
      relay_routing [OF h1 h2, of "ex_paired\<lparr>clients := [''h1'', ''x9'']\<rparr>" "''h1''" ex_env]
      f f' f'' t l
    by (simp add: envelope_def)
qed

text \<open>
  The claim as first stated fails in the hb listing: the host relays while the client is
  not connected and receives no \<^verbatim>\<open>peer-not-connected\<close> reply.
\<close>

theorem relay_hb_silent_drop_counterexample:
  "find_session (ex_paired\<lparr>clients := [''h1'', ''x9'']\<rparr>) (sessionId (envelope ''offer''))
     = Some (''482193'', ex_session)
   \<and> \<not> live (ex_paired\<lparr>clients := [''h1'', ''x9'']\<rparr>) (key_of (targetId ex_session ''h1''))
   \<and> on_message_hb (ex_paired\<lparr>clients := [''h1'', ''x9'']\<rparr>) ''h1'' ex_env (envelope ''offer'')
       = (ex_paired\<lparr>clients := [''h1'', ''x9'']\<rparr>, [])"
  by (simp add: ex_simps handler_defs relay_hb_def targetId_def)

subsection \<open>C8: control events while control is disabled\<close>

text \<open>
  Claim C8. Start from a store whose session identifiers are distinct and handle any
  sequence of \<^verbatim>\<open>toggle-control\<close> messages. For every session of the resulting store
  with \<^verbatim>\<open>controlEnabled\<close> false, a \<^verbatim>\<open>control-event\<close> naming its identifier is answered
  with the one error \<^verbatim>\<open>control-not-enabled\<close> to the sender; nothing is forwarded and the
  state stays as it is. This holds in the grace, restore and mvp listings.
\<close>

theorem control_event_disabled:
  assumes "distinct (map (\<lambda>q. id_s (snd q)) (sessions st0))"
    and "st = toggles st0 ts"
    and "(code, s) \<in> set (sessions st)" and "\<not> controlEnabled s"
    and "mtype data = ''control-event''" and "sessionId data = id_s s"
  shows "on_message_grace st cid e data = (st, [(cid, Error ''control-not-enabled'')])
       \<and> on_message_restore st cid e data = (st, [(cid, Error ''control-not-enabled'')])
       \<and> on_message_mvp st cid e data = (st, [(cid, Error ''control-not-enabled'')])"
proof -
  have "distinct (map (\<lambda>q. id_s (snd q)) (sessions st))"
    using assms(1,2) by (simp add: ids_toggles)
  then have "find_session st (sessionId data) = Some (code, s)"
    using assms(3,6) by (simp add: find_session_def find_has_id_distinct)
  then show ?thesis
    using assms(4,5) by (simp add: handler_defs control_event_def control_event_mvp_def)
qed

theorem control_event_disabled_witness:
  "toggles ex_paired [(''h1'', (envelope ''toggle-control'')\<lparr>enabled := True\<rparr>), (''h1'', envelope ''toggle-control'')]
     = ex_paired\<lparr>sessions := [(''482193'', ex_session\<lparr>controlEnabled := False\<rparr>)]\<rparr>
   \<and> on_message_grace (ex_paired\<lparr>sessions := [(''482193'', ex_session\<lparr>controlEnabled := False\<rparr>)]\<rparr>)
        ''c1'' ex_env (envelope ''control-event'')
       = (ex_paired\<lparr>sessions := [(''482193'', ex_session\<lparr>controlEnabled := False\<rparr>)]\<rparr>,
          [(''c1'', Error ''control-not-enabled'')])
   \<and> on_message_mvp (ex_paired\<lparr>sessions := [(''482193'', ex_session\<lparr>controlEnabled := False\<rparr>)]\<rparr>)
        ''c1'' ex_env (envelope ''control-event'')
       = (ex_paired\<lparr>sessions := [(''482193'', ex_session\<lparr>controlEnabled := False\<rparr>)]\<rparr>,
          [(''c1'', Error ''control-not-enabled'')])"
proof -
  let ?st = "ex_paired\<lparr>sessions := [(''482193'', ex_session\<lparr>controlEnabled := False\<rparr>)]\<rparr>"
  let ?s = "ex_session\<lparr>controlEnabled := False\<rparr>"
  have h1: "distinct (map (\<lambda>q. id_s (snd q)) (sessions ex_paired))"
    by (simp add: ex_paired_def)
  have h2: "?st = toggles ex_paired [(''h1'', (envelope ''toggle-control'')\<lparr>enabled := True\<rparr>), (''h1'', envelope ''toggle-control'')]"
    by (simp add: ex_defs toggle_control_def find_session_def has_id_def)
  have h3: "(''482193'', ?s) \<in> set (sessions ?st)" by simp
  have h4: "\<not> controlEnabled ?s" by simp
  have h5: "mtype (envelope ''control-event'') = ''control-event''" by (simp add: envelope_def)
  have h6: "sessionId (envelope ''control-event'') = id_s ?s" by (simp add: envelope_def ex_session_def)
  show ?thesis
    using control_event_disabled [OF h1 h2 h3 h4 h5 h6, of "''c1''" ex_env] h2 by simp
qed

subsection \<open>C9: the relay does not check membership\<close>

text \<open>
  Claim C9. The relay of the grace and restore listings does not check that the sender
  belongs to the session: a connection that is neither its host nor its client and sends
  an \<^verbatim>\<open>offer\<close>, \<^verbatim>\<open>answer\<close> or \<^verbatim>\<open>ice-candidate\<close> with the session's identifier has the payload
  forwarded to the host (when the host is in the registry), with the sender's own
  identifier in the \<^verbatim>\<open>from\<close> field.
\<close>

theorem relay_no_membership_check:
  assumes "is_signal (mtype data)"
    and "find_session st (sessionId data) = Some (code, s)"
    and "hostId s \<noteq> cid" and "clientId s \<noteq> Some cid"
    and "live st (hostId s)"
  shows "on_message_grace st cid e data =
           (st, [(hostId s, Signal (mtype data) cid (payload data))])
       \<and> on_message_restore st cid e data =
           (st, [(hostId s, Signal (mtype data) cid (payload data))])"
  using assms
  by (auto simp: handler_defs relay_def targetId_def)

theorem relay_no_membership_check_witness:
  "hostId ex_session \<noteq> ''x9'' \<and> clientId ex_session \<noteq> Some ''x9''
   \<and> on_message_grace ex_paired ''x9'' ex_env (envelope ''offer'')
       = (ex_paired, [(''h1'', Signal ''offer'' ''x9'' ''sdp'')])
   \<and> on_message_restore ex_paired ''x9'' ex_env (envelope ''offer'')
       = (ex_paired, [(''h1'', Signal ''offer'' ''x9'' ''sdp'')])"
proof -
  have h1: "is_signal (mtype (envelope ''offer''))"
    by (simp add: envelope_def is_signal_def)
  have h2: "find_session ex_paired (sessionId (envelope ''offer'')) = Some (''482193'', ex_session)"
    by (simp add: ex_simps)
  have h3: "hostId ex_session \<noteq> ''x9''" and h4: "clientId ex_session \<noteq> Some ''x9''"
    by (simp_all add: ex_session_def)
  have h5: "live ex_paired (hostId ex_session)"
    by (simp add: ex_simps)
  show ?thesis
    using relay_no_membership_check [OF h1 h2 h3 h4 h5, of ex_env] h3 h4
    by (simp add: ex_session_def envelope_def)
qed

subsection \<open>C10: a control event for an unknown session\<close>

text \<open>
  Claim C10. In the grace and restore listings a \<^verbatim>\<open>control-event\<close> whose session
  identifier resolves to no session is answered with the error code
  \<^verbatim>\<open>control-not-enabled\<close>, the same reply, from the same branch, as for a session whose
  control is disabled; the code \<^verbatim>\<open>unknown-session\<close> is not used. Nothing is stored.
\<close>

theorem control_event_unknown_session_conflated:
  assumes "mtype data = ''control-event''"
    and "find_session st (sessionId data) = None
         \<or> (\<exists>code s. find_session st (sessionId data) = Some (code, s) \<and> \<not> controlEnabled s)"
  shows "on_message_grace st cid e data = (st, [(cid, Error ''control-not-enabled'')])
       \<and> on_message_restore st cid e data = (st, [(cid, Error ''control-not-enabled'')])"
  using assms
  by (auto simp: handler_defs control_event_def)

theorem control_event_unknown_session_conflated_witness:
  "find_session ex_paired ''s-0'' = None
   \<and> on_message_grace ex_paired ''c1'' ex_env ((envelope ''control-event'')\<lparr>sessionId := ''s-0''\<rparr>)
       = (ex_paired, [(''c1'', Error ''control-not-enabled'')])
   \<and> on_message_restore ex_paired ''c1'' ex_env ((envelope ''control-event'')\<lparr>sessionId := ''s-0''\<rparr>)
       = (ex_paired, [(''c1'', Error ''control-not-enabled'')])"
proof -
  have h1: "mtype ((envelope ''control-event'')\<lparr>sessionId := ''s-0''\<rparr>) = ''control-event''"
    by (simp add: envelope_def)
  have h2: "find_session ex_paired ''s-0'' = None"
    by (simp add: ex_simps)
  have h3: "find_session ex_paired (sessionId ((envelope ''control-event'')\<lparr>sessionId := ''s-0''\<rparr>)) = None
     \<or> (\<exists>code s. find_session ex_paired (sessionId ((envelope ''control-event'')\<lparr>sessionId := ''s-0''\<rparr>)) = Some (code, s) \<and> \<not> controlEnabled s)"
    using h2 by simp
  show ?thesis
    using control_event_unknown_session_conflated [OF h1 h3, of "''c1''" ex_env] h2 by simp
qed

end
